theory Spec2Isabelle
  imports Complex_Main "HOL-Library.AList"
begin

section \<open>Python values\<close>

text \<open>
  The program is a Python script (\<^verbatim>\<open>src/main.py\<close>) that drives several exchange
  accounts through one trading action. Its values are modelled as follows.

  \<^item> A Python \<^verbatim>\<open>float\<close> is a finite value, which is a rational number, or one of negative
    zero, the two infinities and NaN. Comparison, truth value, \<^verbatim>\<open>int(x)\<close>, \<^verbatim>\<open>str(x)\<close> and
    \<^verbatim>\<open>"{:.7f}".format(x)\<close> follow Python on all of them. The arithmetic operations round
    their exact result: the rounding of a value within the range of a float is a
    parameter (the field \<open>rnd\<close> of the environment), so nothing below depends on a
    particular precision; a value at or beyond the overflow threshold of a double becomes
    an infinity in float arithmetic and \<^verbatim>\<open>OverflowError\<close> in a conversion from \<^verbatim>\<open>int\<close>.
  \<^item> A Python \<^verbatim>\<open>int\<close> is an \<open>int\<close>.
  \<^item> A Python \<^verbatim>\<open>str\<close> is a list of characters with codes below 256.
  \<^item> What an exchange call returns is a JSON value; every access the script makes to
    it (\<^verbatim>\<open>in\<close>, subscript, \<^verbatim>\<open>.get\<close>, iteration, \<^verbatim>\<open>float(...)\<close>) is a function into
    \<open>option\<close>, with \<open>None\<close> for the exception Python raises.
\<close>

datatype pyfloat = Finite rat | NegZero | PosInf | NegInf | NaN

datatype num = PyInt int | PyFloat pyfloat

datatype json =
    JNull
  | JBool bool
  | JNum num
  | JStr string
  | JArr "json list"
  | JObj "(string \<times> json) list"

datatype pyval = Num num | Str string

subsection \<open>Comparison and truth value of numbers\<close>

text \<open>The place of a number on the extended line: below, among or above the finite
  values. NaN has none, and every comparison with it is false. Python compares an \<^verbatim>\<open>int\<close>
  with a \<^verbatim>\<open>float\<close> by their exact values.\<close>

fun line :: "pyfloat \<Rightarrow> (int \<times> rat) option" where
  "line (Finite x) = Some (0, x)"
| "line NegZero = Some (0, 0)"
| "line PosInf = Some (1, 0)"
| "line NegInf = Some (- 1, 0)"
| "line NaN = None"

fun num_line :: "num \<Rightarrow> (int \<times> rat) option" where
  "num_line (PyInt i) = Some (0, of_int i)"
| "num_line (PyFloat x) = line x"

text \<open>\<^verbatim>\<open>a < b\<close> and \<^verbatim>\<open>a <= b\<close>; \<^verbatim>\<open>a > b\<close> is \<open>py_lt b a\<close> and \<^verbatim>\<open>a >= b\<close> is \<open>py_le b a\<close>.\<close>

definition py_lt :: "num \<Rightarrow> num \<Rightarrow> bool" where
  "py_lt a b =
     (case (num_line a, num_line b) of
        (Some (i, x), Some (j, y)) \<Rightarrow> i < j \<or> (i = j \<and> x < y)
      | _ \<Rightarrow> False)"

definition py_le :: "num \<Rightarrow> num \<Rightarrow> bool" where
  "py_le a b =
     (case (num_line a, num_line b) of
        (Some (i, x), Some (j, y)) \<Rightarrow> i < j \<or> (i = j \<and> x \<le> y)
      | _ \<Rightarrow> False)"

text \<open>Truth value of a number in a condition: everything but zero is true, NaN
  included.\<close>

fun nonzero :: "num \<Rightarrow> bool" where
  "nonzero (PyInt i) = (i \<noteq> 0)"
| "nonzero (PyFloat x) = (x \<noteq> Finite 0 \<and> x \<noteq> NegZero)"

subsection \<open>Float arithmetic\<close>

text \<open>The exact values that round to an infinity under round-to-nearest: those of
  magnitude \<open>2^1024 - 2^970\<close>, the largest double plus half a unit in its last place, and
  above.\<close>

definition float_overflow :: "rat \<Rightarrow> bool" where
  "float_overflow x = (2 ^ 1024 - 2 ^ 970 \<le> \<bar>x\<bar>)"

text \<open>The float that an operation with exact result \<open>x\<close> returns; \<open>neg\<close> is the sign of
  the result, which a zero keeps.\<close>

definition make_float :: "(rat \<Rightarrow> rat) \<Rightarrow> bool \<Rightarrow> rat \<Rightarrow> pyfloat" where
  "make_float r neg x =
     (if float_overflow x then (if neg then NegInf else PosInf)
      else if r x = 0 then (if neg then NegZero else Finite 0)
      else Finite (r x))"

text \<open>\<^verbatim>\<open>float(i)\<close> for an int, explicit or implied by an operation with a float:
  \<^verbatim>\<open>OverflowError\<close> is \<open>None\<close>. An int of magnitude up to \<open>2^53\<close> is a double as it is;
  a larger one is rounded.\<close>

definition float_of_int :: "(rat \<Rightarrow> rat) \<Rightarrow> int \<Rightarrow> pyfloat option" where
  "float_of_int r i =
     (if float_overflow (of_int i) then None
      else if \<bar>i\<bar> \<le> 2 ^ 53 then Some (Finite (of_int i))
      else Some (Finite (r (of_int i))))"

fun to_float :: "(rat \<Rightarrow> rat) \<Rightarrow> num \<Rightarrow> pyfloat option" where
  "to_float r (PyInt i) = float_of_int r i"
| "to_float r (PyFloat x) = Some x"

fun negative :: "pyfloat \<Rightarrow> bool" where
  "negative (Finite x) = (x < 0)"
| "negative NegZero = True"
| "negative PosInf = False"
| "negative NegInf = True"
| "negative NaN = False"

fun finite_value :: "pyfloat \<Rightarrow> rat option" where
  "finite_value (Finite x) = Some x"
| "finite_value NegZero = Some 0"
| "finite_value _ = None"

text \<open>\<^verbatim>\<open>x * y\<close> on floats.\<close>

definition float_mul :: "(rat \<Rightarrow> rat) \<Rightarrow> pyfloat \<Rightarrow> pyfloat \<Rightarrow> pyfloat" where
  "float_mul r x y =
     (let neg = (negative x \<noteq> negative y); inf = (if neg then NegInf else PosInf)
      in if x = NaN \<or> y = NaN then NaN
         else (case (finite_value x, finite_value y) of
                 (Some a, Some b) \<Rightarrow> make_float r neg (a * b)
               | (Some a, None) \<Rightarrow> if a = 0 then NaN else inf
               | (None, Some b) \<Rightarrow> if b = 0 then NaN else inf
               | (None, None) \<Rightarrow> inf))"

text \<open>\<^verbatim>\<open>x / y\<close> on floats; \<open>None\<close> is \<^verbatim>\<open>ZeroDivisionError\<close>.\<close>

definition float_div :: "(rat \<Rightarrow> rat) \<Rightarrow> pyfloat \<Rightarrow> pyfloat \<Rightarrow> pyfloat option" where
  "float_div r x y =
     (let neg = (negative x \<noteq> negative y)
      in if finite_value y = Some 0 then None
         else if x = NaN \<or> y = NaN then Some NaN
         else (case (finite_value x, finite_value y) of
                 (Some a, Some b) \<Rightarrow> Some (make_float r neg (a / b))
               | (Some a, None) \<Rightarrow> Some (if neg then NegZero else Finite 0)
               | (None, Some b) \<Rightarrow> Some (if neg then NegInf else PosInf)
               | (None, None) \<Rightarrow> Some NaN))"

text \<open>\<^verbatim>\<open>a * b\<close> and \<^verbatim>\<open>a / b\<close> on numbers. An int meeting a float is converted first; the
  quotient of two ints is their exact quotient, rounded once. \<open>None\<close> is the exception
  (\<^verbatim>\<open>OverflowError\<close>, \<^verbatim>\<open>ZeroDivisionError\<close>).\<close>

fun py_mul :: "(rat \<Rightarrow> rat) \<Rightarrow> num \<Rightarrow> num \<Rightarrow> num option" where
  "py_mul r (PyInt i) (PyInt j) = Some (PyInt (i * j))"
| "py_mul r (PyInt i) (PyFloat y) =
     (case float_of_int r i of None \<Rightarrow> None | Some x \<Rightarrow> Some (PyFloat (float_mul r x y)))"
| "py_mul r (PyFloat x) (PyInt j) =
     (case float_of_int r j of None \<Rightarrow> None | Some y \<Rightarrow> Some (PyFloat (float_mul r x y)))"
| "py_mul r (PyFloat x) (PyFloat y) = Some (PyFloat (float_mul r x y))"

fun py_truediv :: "(rat \<Rightarrow> rat) \<Rightarrow> num \<Rightarrow> num \<Rightarrow> pyfloat option" where
  "py_truediv r (PyInt i) (PyInt j) =
     (if j = 0 then None
      else if float_overflow (of_int i / of_int j) then None
      else Some (make_float r (of_int i / of_int j < (0::rat)) (of_int i / of_int j)))"
| "py_truediv r (PyInt i) (PyFloat y) =
     (case float_of_int r i of None \<Rightarrow> None | Some x \<Rightarrow> float_div r x y)"
| "py_truediv r (PyFloat x) (PyInt j) =
     (case float_of_int r j of None \<Rightarrow> None | Some y \<Rightarrow> float_div r x y)"
| "py_truediv r (PyFloat x) (PyFloat y) = float_div r x y"

subsection \<open>JSON values\<close>

text \<open>Truth value of a JSON value in a condition (\<^verbatim>\<open>if x\<close>, \<^verbatim>\<open>not x\<close>).\<close>

fun truthy :: "json \<Rightarrow> bool" where
  "truthy JNull = False"
| "truthy (JBool b) = b"
| "truthy (JNum n) = nonzero n"
| "truthy (JStr s) = (s \<noteq> [])"
| "truthy (JArr xs) = (xs \<noteq> [])"
| "truthy (JObj d) = (d \<noteq> [])"

text \<open>\<^verbatim>\<open>sub in s\<close> on strings.\<close>

fun is_substring :: "string \<Rightarrow> string \<Rightarrow> bool" where
  "is_substring sub [] = (sub = [])"
| "is_substring sub (c # cs) = (take (length sub) (c # cs) = sub \<or> is_substring sub cs)"

text \<open>\<^verbatim>\<open>k in x\<close> for a string \<open>k\<close>: key test on a dict, membership on a list, substring
  on a string, \<^verbatim>\<open>TypeError\<close> otherwise.\<close>

fun py_in :: "string \<Rightarrow> json \<Rightarrow> bool option" where
  "py_in k (JObj d) = Some (map_of d k \<noteq> None)"
| "py_in k (JArr xs) = Some (JStr k \<in> set xs)"
| "py_in k (JStr s) = Some (is_substring k s)"
| "py_in k _ = None"

text \<open>\<^verbatim>\<open>x[k]\<close> for a string \<open>k\<close>: \<^verbatim>\<open>KeyError\<close> on a dict without the key,
  \<^verbatim>\<open>TypeError\<close> on everything that is not a dict.\<close>

fun subscript :: "json \<Rightarrow> string \<Rightarrow> json option" where
  "subscript (JObj d) k = map_of d k"
| "subscript _ k = None"

text \<open>\<^verbatim>\<open>x.get(k, default)\<close>: only a dict has the method (\<^verbatim>\<open>AttributeError\<close>).\<close>

fun dict_get :: "json \<Rightarrow> string \<Rightarrow> json \<Rightarrow> json option" where
  "dict_get (JObj d) k dflt = Some (case map_of d k of None \<Rightarrow> dflt | Some v \<Rightarrow> v)"
| "dict_get _ k dflt = None"

text \<open>\<^verbatim>\<open>for x in v\<close>: the elements of a list, the keys of a dict, the characters of a
  string, \<^verbatim>\<open>TypeError\<close> otherwise.\<close>

fun py_iter :: "json \<Rightarrow> json list option" where
  "py_iter (JArr xs) = Some xs"
| "py_iter (JObj d) = Some (map (\<lambda>kv. JStr (fst kv)) d)"
| "py_iter (JStr s) = Some (map (\<lambda>c. JStr [c]) s)"
| "py_iter _ = None"

text \<open>\<^verbatim>\<open>float(v)\<close>. The parser of strings is Python's own and is a parameter:
  \<open>pf s = None\<close> stands for \<^verbatim>\<open>ValueError\<close>. It yields non-finite floats as well
  (\<^verbatim>\<open>float("nan")\<close>, \<^verbatim>\<open>float("Infinity")\<close>, \<^verbatim>\<open>float("1e999")\<close>).\<close>

fun py_float :: "(rat \<Rightarrow> rat) \<Rightarrow> (string \<Rightarrow> pyfloat option) \<Rightarrow> json \<Rightarrow> pyfloat option" where
  "py_float r pf (JNum n) = to_float r n"
| "py_float r pf (JStr s) = pf s"
| "py_float r pf (JBool b) = Some (Finite (if b then 1 else 0))"
| "py_float r pf _ = None"

text \<open>\<^verbatim>\<open>int(x)\<close> on a float truncates towards zero; on an infinity it raises
  \<^verbatim>\<open>OverflowError\<close> and on NaN \<^verbatim>\<open>ValueError\<close>.\<close>

definition py_int :: "rat \<Rightarrow> int" where
  "py_int x = (if 0 \<le> x then \<lfloor>x\<rfloor> else \<lceil>x\<rceil>)"

fun int_of_num :: "num \<Rightarrow> int option" where
  "int_of_num (PyInt i) = Some i"
| "int_of_num (PyFloat (Finite x)) = Some (py_int x)"
| "int_of_num (PyFloat NegZero) = Some 0"
| "int_of_num (PyFloat _) = None"

section \<open>Decimal strings\<close>

definition digit_chars :: string where
  "digit_chars = ''0123456789''"

fun str_nat :: "nat \<Rightarrow> string" where
  "str_nat n = (if n < 10 then [digit_chars ! n] else str_nat (n div 10) @ [digit_chars ! (n mod 10)])"

declare str_nat.simps [simp del]

text \<open>\<^verbatim>\<open>str(i)\<close> for an int.\<close>

definition str_int :: "int \<Rightarrow> string" where
  "str_int i = (if i < 0 then CHR ''-'' # str_nat (nat (- i)) else str_nat (nat i))"

text \<open>\<^verbatim>\<open>s.rstrip(c)\<close> for a one-character argument.\<close>

definition rstrip :: "char \<Rightarrow> string \<Rightarrow> string" where
  "rstrip c s = rev (dropWhile (\<lambda>x. x = c) (rev s))"

text \<open>Rounding to the nearest integer, ties to even: the rounding of \<^verbatim>\<open>"{:.7f}"\<close>,
  which Python applies to the exact value of the float.\<close>

definition round_half_even :: "rat \<Rightarrow> int" where
  "round_half_even x =
     (let f = \<lfloor>x\<rfloor>; d = x - of_int f
      in if d < 1 / 2 then f else if 1 / 2 < d then f + 1 else if even f then f else f + 1)"

text \<open>The fixed-point presentation of a finite value with seven fractional digits: sign,
  integer part, point, exactly seven digits.\<close>

definition fixed_7 :: "rat \<Rightarrow> string" where
  "fixed_7 x =
     (let n = nat (round_half_even (\<bar>x\<bar> * 10000000));
          frac = str_nat (n mod 10000000)
      in (if x < 0 then ''-'' else '''') @ str_nat (n div 10000000) @ ''.'' @
         replicate (7 - length frac) (CHR ''0'') @ frac)"

text \<open>\<^verbatim>\<open>"{:.7f}".format(x)\<close> for a float.\<close>

fun format_7f :: "pyfloat \<Rightarrow> string" where
  "format_7f (Finite x) = fixed_7 x"
| "format_7f NegZero = ''-0.0000000''"
| "format_7f PosInf = ''inf''"
| "format_7f NegInf = ''-inf''"
| "format_7f NaN = ''nan''"

text \<open>\<^verbatim>\<open>str(x)\<close> for a float. The shortest decimal that reads back as a finite float is
  Python's own and a parameter.\<close>

fun str_float :: "(rat \<Rightarrow> string) \<Rightarrow> pyfloat \<Rightarrow> string" where
  "str_float sf (Finite x) = sf x"
| "str_float sf NegZero = ''-0.0''"
| "str_float sf PosInf = ''inf''"
| "str_float sf NegInf = ''-inf''"
| "str_float sf NaN = ''nan''"

section \<open>Quantity formatter\<close>

text \<open>\<^verbatim>\<open>MultiAccountTrader.format_quantity_for_api\<close>. A string argument is parsed first
  and returned as it is when \<^verbatim>\<open>float\<close> raises; the two branches on \<^verbatim>\<open>quantity < 0.0001\<close>
  compute the same expression in the source. The format specification \<^verbatim>\<open>f\<close> converts an
  int to a float, which raises \<^verbatim>\<open>OverflowError\<close> for an int beyond the range of a float:
  the result \<open>None\<close>.\<close>

definition format_number :: "(rat \<Rightarrow> rat) \<Rightarrow> num \<Rightarrow> string option" where
  "format_number r quantity =
     (if py_lt quantity (PyFloat (Finite (1 / 10000)))
      then (case to_float r quantity of
              None \<Rightarrow> None
            | Some x \<Rightarrow> Some (rstrip (CHR ''.'') (rstrip (CHR ''0'') (format_7f x))))
      else (case to_float r quantity of
              None \<Rightarrow> None
            | Some x \<Rightarrow> Some (rstrip (CHR ''.'') (rstrip (CHR ''0'') (format_7f x)))))"

fun format_quantity_for_api ::
  "(rat \<Rightarrow> rat) \<Rightarrow> (string \<Rightarrow> pyfloat option) \<Rightarrow> pyval \<Rightarrow> string option" where
  "format_quantity_for_api r pf (Str s) =
     (case pf s of None \<Rightarrow> Some s | Some quantity \<Rightarrow> format_number r (PyFloat quantity))"
| "format_quantity_for_api r pf (Num n) = format_number r n"

text \<open>The shape the formatter promises: an optional sign, at least one digit, and then
  either nothing or a point followed by one to seven digits the last of which is not
  \<open>0\<close>. Such a string has no exponent character.\<close>

definition is_digit :: "char \<Rightarrow> bool" where
  "is_digit c = (c \<in> set digit_chars)"

definition plain_decimal :: "string \<Rightarrow> bool" where
  "plain_decimal s =
     (let body = (if s \<noteq> [] \<and> hd s = CHR ''-'' then tl s else s);
          ip = takeWhile is_digit body;
          rest = dropWhile is_digit body
      in ip \<noteq> [] \<and>
         (rest = [] \<or>
          (hd rest = CHR ''.'' \<and> tl rest \<noteq> [] \<and> list_all is_digit (tl rest) \<and>
           length (tl rest) \<le> 7 \<and> last (tl rest) \<noteq> CHR ''0'')))"

text \<open>The number that a plain decimal string denotes.\<close>

definition digit_value :: "char \<Rightarrow> nat" where
  "digit_value c = of_char c - 48"

definition nat_of_digits :: "string \<Rightarrow> nat" where
  "nat_of_digits s = foldl (\<lambda>a c. 10 * a + digit_value c) 0 s"

definition decimal_value :: "string \<Rightarrow> rat" where
  "decimal_value s =
     (let neg = (s \<noteq> [] \<and> hd s = CHR ''-'');
          body = (if neg then tl s else s);
          ip = takeWhile is_digit body;
          rest = dropWhile is_digit body;
          fs = (if rest = [] then [] else tl rest)
      in (if neg then - 1 else 1) *
         (of_nat (nat_of_digits ip) + of_nat (nat_of_digits fs) / 10 ^ length fs))"

text \<open>The value with seven fractional digits that is nearest to \<open>x\<close>, a tie going to the
  even last digit.\<close>

definition round_7 :: "rat \<Rightarrow> rat" where
  "round_7 x =
     (if x < 0 then - 1 else 1) * of_int (round_half_even (\<bar>x\<bar> * 10000000)) / 10000000"

section \<open>The exchange and the environment\<close>

text \<open>
  \<^verbatim>\<open>pybitget.Client\<close> is the library behind every account; the script calls five of its
  methods. A call is the account it is made for together with the request; the trace of
  all calls made so far is the state that every function below passes on. The exchange
  answers a call knowing the whole history, and either raises or returns JSON.

  The other things the script reads from outside are collected with it: the clock
  (\<^verbatim>\<open>time.time()\<close>, in seconds since the epoch), the rounding of float arithmetic,
  Python's \<^verbatim>\<open>float\<close> on strings and \<^verbatim>\<open>str\<close> on finite floats, the operator's replies to
  \<^verbatim>\<open>input\<close>, and \<^verbatim>\<open>rprint\<close>, which is \<^verbatim>\<open>rich.print\<close>: it reads its argument as console
  markup and raises \<^verbatim>\<open>MarkupError\<close> on a closing tag that closes nothing;
  \<open>rprint e s = Some m\<close> says that printing \<open>s\<close> raises with the message \<open>m\<close>.

  \<^verbatim>\<open>trade_all_accounts\<close> is modelled with the messages it prints. The messages of
  \<^verbatim>\<open>BitgetClient\<close> and of the per-account executors, the progress display and \<^verbatim>\<open>time.sleep\<close>
  are left out: an executor is taken to return what its \<^verbatim>\<open>try\<close> block or its handler
  returns. An executor that raises all the same is a parameter of the batch loop.
\<close>

datatype request =
    Spot_get_account_assets string
  | Spot_place_order "(string \<times> string) list"
  | Spot_get_ticker string
  | Spot_get_open_orders string
  | Spot_cance_order string json

datatype reply = Raises string | Returns json

type_synonym call = "string \<times> request"

datatype prompt = Ask_amount | Ask_price "pyfloat option" | Ask_percentage

record env =
  exchange :: "call list \<Rightarrow> call \<Rightarrow> reply"
  clock :: "call list \<Rightarrow> rat"
  rnd :: "rat \<Rightarrow> rat"
  float_of_str :: "string \<Rightarrow> pyfloat option"
  str_of_float :: "rat \<Rightarrow> string"
  input :: "prompt \<Rightarrow> string"
  rprint :: "string \<Rightarrow> string option"

definition api :: "env \<Rightarrow> string \<Rightarrow> request \<Rightarrow> call list \<Rightarrow> reply \<times> call list" where
  "api e acct req tr = (exchange e tr (acct, req), tr @ [(acct, req)])"

text \<open>The dict \<^verbatim>\<open>{"code": -1, "msg": ...}\<close> that the client wrapper returns for a caught
  exception. For an exception raised by Python itself the message is the exception's
  name.\<close>

definition error_response :: "string \<Rightarrow> json" where
  "error_response m = JObj [(''code'', JNum (PyInt (- 1))), (''msg'', JStr m)]"

section \<open>BitgetClient\<close>

text \<open>A \<^verbatim>\<open>BitgetClient\<close> is identified by the \<^verbatim>\<open>account_name\<close> it was built with.\<close>

text \<open>\<^verbatim>\<open>BitgetClient.get_account_assets\<close>\<close>

definition get_account_assets ::
  "env \<Rightarrow> string \<Rightarrow> string option \<Rightarrow> call list \<Rightarrow> json \<times> call list" where
  "get_account_assets e acct coin tr =
     (let c = (case coin of None \<Rightarrow> ''SPELL'' | Some c \<Rightarrow> if c \<noteq> [] then c else ''SPELL'')
      in case api e acct (Spot_get_account_assets c) tr of
           (Raises m, tr') \<Rightarrow> (error_response m, tr')
         | (Returns response, tr') \<Rightarrow>
             if \<not> truthy response then (error_response ''Invalid API response'', tr')
             else (case py_in ''data'' response of
                     None \<Rightarrow> (error_response ''TypeError'', tr')
                   | Some False \<Rightarrow> (error_response ''Invalid API response'', tr')
                   | Some True \<Rightarrow> (response, tr')))"

text \<open>Arguments of \<^verbatim>\<open>place_order\<close>: \<open>None\<close>, a number or a string.\<close>

fun py_str :: "(rat \<Rightarrow> string) \<Rightarrow> pyval option \<Rightarrow> string" where
  "py_str sf None = ''None''"
| "py_str sf (Some (Num (PyInt i))) = str_int i"
| "py_str sf (Some (Num (PyFloat x))) = str_float sf x"
| "py_str sf (Some (Str s)) = s"

fun falsy :: "pyval option \<Rightarrow> bool" where
  "falsy None = True"
| "falsy (Some (Num n)) = (\<not> nonzero n)"
| "falsy (Some (Str s)) = (s = [])"

fun float_arg ::
  "(rat \<Rightarrow> rat) \<Rightarrow> (string \<Rightarrow> pyfloat option) \<Rightarrow> pyval option \<Rightarrow> pyfloat option" where
  "float_arg r pf None = None"
| "float_arg r pf (Some (Num n)) = to_float r n"
| "float_arg r pf (Some (Str s)) = pf s"

text \<open>\<^verbatim>\<open>self.client.spot_place_order(**params)\<close> inside the \<^verbatim>\<open>try\<close> of \<^verbatim>\<open>place_order\<close>.\<close>

definition send_order ::
  "env \<Rightarrow> string \<Rightarrow> (string \<times> string) list \<Rightarrow> call list \<Rightarrow> json \<times> call list" where
  "send_order e acct params tr =
     (case api e acct (Spot_place_order params) tr of
        (Raises m, tr') \<Rightarrow> (error_response m, tr')
      | (Returns response, tr') \<Rightarrow> (response, tr'))"

text \<open>\<^verbatim>\<open>BitgetClient.place_order\<close>. The \<^verbatim>\<open>ValueError\<close> of a limit order without a
  positive price is raised before the library is called and caught by the method's own
  \<^verbatim>\<open>except\<close>, as is the exception of \<^verbatim>\<open>float(price)\<close>. The clock is a time since the
  epoch, whose milliseconds are far inside the range of a float.\<close>

definition place_order ::
  "env \<Rightarrow> string \<Rightarrow> string \<Rightarrow> string \<Rightarrow> string \<Rightarrow> pyval option \<Rightarrow> pyval option \<Rightarrow>
   call list \<Rightarrow> json \<times> call list" where
  "place_order e acct symbol side orderType quantity price tr =
     (let params =
            [(''symbol'', symbol), (''side'', side), (''orderType'', orderType),
             (''force'', ''gtc''),
             (''clientOrderId'', str_int (py_int (rnd e (clock e tr * 1000))))]
      in if orderType = ''limit'' then
           (if falsy price then (error_response ''Limit orders require a valid price'', tr)
            else case float_arg (rnd e) (float_of_str e) price of
                   None \<Rightarrow> (error_response ''ValueError'', tr)
                 | Some p \<Rightarrow>
                     if py_le (PyFloat p) (PyInt 0)
                     then (error_response ''Limit orders require a valid price'', tr)
                     else send_order e acct
                            (params @ [(''price'', py_str (str_of_float e) price),
                                       (''quantity'', py_str (str_of_float e) quantity)]) tr)
         else if orderType = ''market'' then
           send_order e acct (params @ [(''quantity'', py_str (str_of_float e) quantity)]) tr
         else send_order e acct params tr)"

text \<open>\<^verbatim>\<open>BitgetClient.get_current_price\<close>: a float, or \<open>None\<close> for every response without
  \<^verbatim>\<open>data.close\<close> and for every exception.\<close>

definition ticker_close ::
  "(rat \<Rightarrow> rat) \<Rightarrow> (string \<Rightarrow> pyfloat option) \<Rightarrow> json \<Rightarrow> pyfloat option" where
  "ticker_close r pf response =
     (case py_in ''data'' response of
        None \<Rightarrow> None
      | Some False \<Rightarrow> None
      | Some True \<Rightarrow>
          (case subscript response ''data'' of
             None \<Rightarrow> None
           | Some d \<Rightarrow>
               if \<not> truthy d then None
               else (case py_in ''close'' d of
                       None \<Rightarrow> None
                     | Some False \<Rightarrow> None
                     | Some True \<Rightarrow>
                         (case subscript d ''close'' of
                            None \<Rightarrow> None
                          | Some c \<Rightarrow> py_float r pf c))))"

definition get_current_price ::
  "env \<Rightarrow> string \<Rightarrow> string \<Rightarrow> call list \<Rightarrow> pyfloat option \<times> call list" where
  "get_current_price e acct symbol tr =
     (case api e acct (Spot_get_ticker symbol) tr of
        (Raises m, tr') \<Rightarrow> (None, tr')
      | (Returns response, tr') \<Rightarrow> (ticker_close (rnd e) (float_of_str e) response, tr'))"

text \<open>\<^verbatim>\<open>BitgetClient.get_open_orders\<close>\<close>

definition open_orders_error :: "string \<Rightarrow> json" where
  "open_orders_error m =
     JObj [(''code'', JNum (PyInt (- 1))), (''msg'', JStr m), (''data'', JArr [])]"

definition get_open_orders :: "env \<Rightarrow> string \<Rightarrow> string \<Rightarrow> call list \<Rightarrow> json \<times> call list" where
  "get_open_orders e acct symbol tr =
     (case api e acct (Spot_get_open_orders symbol) tr of
        (Raises m, tr') \<Rightarrow> (open_orders_error m, tr')
      | (Returns response, tr') \<Rightarrow>
          if \<not> truthy response then (open_orders_error ''Invalid API response'', tr')
          else (case py_in ''data'' response of
                  None \<Rightarrow> (open_orders_error ''TypeError'', tr')
                | Some False \<Rightarrow> (open_orders_error ''Invalid API response'', tr')
                | Some True \<Rightarrow> (response, tr')))"

text \<open>\<^verbatim>\<open>BitgetClient.cancel_order\<close>\<close>

definition cancel_order ::
  "env \<Rightarrow> string \<Rightarrow> string \<Rightarrow> json \<Rightarrow> call list \<Rightarrow> json \<times> call list" where
  "cancel_order e acct symbol order_id tr =
     (case api e acct (Spot_cance_order symbol order_id) tr of
        (Raises m, tr') \<Rightarrow> (error_response m, tr')
      | (Returns response, tr') \<Rightarrow> (response, tr'))"

section \<open>MultiAccountTrader: configuration and per-account executors\<close>

text \<open>The \<^verbatim>\<open>trading\<close> section of the configuration: three strings and three optional
  JSON numbers. An entry of \<^verbatim>\<open>self.clients\<close>: the client and the \<^verbatim>\<open>active\<close> flag. The
  \<^verbatim>\<open>user_inputs\<close> dict holds the floats read from the operator for one batch.\<close>

record trading =
  cfg_symbol :: string
  cfg_coin :: string
  cfg_quote :: string
  cfg_buy_amount :: "num option"
  cfg_sell_percentage :: "num option"
  cfg_price :: "num option"

record account_info =
  client :: string
  active :: bool

record user_inputs =
  ui_buy_amount :: "pyfloat option"
  ui_sell_percentage :: "pyfloat option"
  ui_price :: "pyfloat option"

definition no_inputs :: user_inputs where
  "no_inputs = \<lparr>ui_buy_amount = None, ui_sell_percentage = None, ui_price = None\<rparr>"

text \<open>What an executor returns is a Python value: \<open>None\<close> (\<open>JNull\<close>), an order id taken
  from the response, or a boolean.\<close>

text \<open>The tail shared by the four order executors: \<^verbatim>\<open>result.get("code") == "00000"\<close>
  gives the order id, anything else \<open>None\<close>; \<^verbatim>\<open>.get\<close> on a value that is not a dict
  raises and the executor's \<^verbatim>\<open>except\<close> returns \<open>None\<close>.\<close>

definition order_outcome :: "json \<Rightarrow> json" where
  "order_outcome result =
     (case dict_get result ''code'' JNull of
        None \<Rightarrow> JNull
      | Some code \<Rightarrow>
          if code = JStr ''00000'' then
            (case dict_get result ''data'' (JObj []) of
               None \<Rightarrow> JNull
             | Some d \<Rightarrow>
                 (case dict_get d ''orderId'' (JStr ''unknown'') of
                    None \<Rightarrow> JNull
                  | Some order_id \<Rightarrow> order_id))
          else JNull)"

text \<open>The parameter lookups as the executors write them:
  \<^verbatim>\<open>user_inputs\<close> first, then the configuration.\<close>

definition resolve_buy_amount :: "user_inputs \<Rightarrow> trading \<Rightarrow> num option" where
  "resolve_buy_amount user_inputs cfg =
     (case ui_buy_amount user_inputs of
        Some a \<Rightarrow> Some (PyFloat a)
      | None \<Rightarrow> (case cfg_buy_amount cfg of Some a \<Rightarrow> Some a | None \<Rightarrow> None))"

definition resolve_sell_percentage :: "user_inputs \<Rightarrow> trading \<Rightarrow> num option" where
  "resolve_sell_percentage user_inputs cfg =
     (case ui_sell_percentage user_inputs of
        Some p \<Rightarrow> Some (PyFloat p)
      | None \<Rightarrow> (case cfg_sell_percentage cfg of Some p \<Rightarrow> Some p | None \<Rightarrow> None))"

text \<open>The price has a third source, the market price the executor has at hand:
  \<^verbatim>\<open>price = current_price or 0\<close>.\<close>

definition resolve_price :: "user_inputs \<Rightarrow> trading \<Rightarrow> pyfloat option \<Rightarrow> num" where
  "resolve_price user_inputs cfg current_price =
     (case ui_price user_inputs of
        Some p \<Rightarrow> PyFloat p
      | None \<Rightarrow>
          (case cfg_price cfg of
             Some p \<Rightarrow>
               if py_lt (PyInt 0) p then p
               else (case current_price of
                       None \<Rightarrow> PyInt 0
                     | Some c \<Rightarrow> if nonzero (PyFloat c) then PyFloat c else PyInt 0)
           | None \<Rightarrow>
               (case current_price of
                  None \<Rightarrow> PyInt 0
                | Some c \<Rightarrow> if nonzero (PyFloat c) then PyFloat c else PyInt 0)))"

text \<open>Whether \<^verbatim>\<open>execute_buy_limit\<close> reaches its \<^verbatim>\<open>else\<close> branch and asks the client for
  the market price.\<close>

definition price_from_market :: "user_inputs \<Rightarrow> trading \<Rightarrow> bool" where
  "price_from_market user_inputs cfg =
     (ui_price user_inputs = None \<and>
      (case cfg_price cfg of None \<Rightarrow> True | Some p \<Rightarrow> \<not> py_lt (PyInt 0) p))"

text \<open>\<^verbatim>\<open>int(quantity) if quantity >= 1 else self.format_quantity_for_api(quantity)\<close>;
  \<open>None\<close> when \<^verbatim>\<open>int\<close> or the formatter raises.\<close>

definition format_sell_quantity ::
  "(rat \<Rightarrow> rat) \<Rightarrow> (string \<Rightarrow> pyfloat option) \<Rightarrow> num \<Rightarrow> pyval option" where
  "format_sell_quantity r pf quantity =
     (if py_le (PyInt 1) quantity
      then (case int_of_num quantity of None \<Rightarrow> None | Some i \<Rightarrow> Some (Num (PyInt i)))
      else (case format_quantity_for_api r pf (Num quantity) of
              None \<Rightarrow> None
            | Some s \<Rightarrow> Some (Str s)))"

text \<open>\<^verbatim>\<open>available_balance * (sell_percentage / 100)\<close>; \<open>None\<close> when an operation
  raises.\<close>

definition sell_quantity :: "(rat \<Rightarrow> rat) \<Rightarrow> num \<Rightarrow> num \<Rightarrow> num option" where
  "sell_quantity r available_balance sell_percentage =
     (case py_truediv r sell_percentage (PyInt 100) of
        None \<Rightarrow> None
      | Some fraction \<Rightarrow> py_mul r available_balance (PyFloat fraction))"

text \<open>\<^verbatim>\<open>MultiAccountTrader.execute_buy_market\<close>\<close>

definition execute_buy_market ::
  "env \<Rightarrow> trading \<Rightarrow> string \<Rightarrow> account_info \<Rightarrow> user_inputs \<Rightarrow> call list \<Rightarrow> json \<times> call list"
  where
  "execute_buy_market e cfg account_name info user_inputs tr =
     (case resolve_buy_amount user_inputs cfg of
        None \<Rightarrow> (JNull, tr)
      | Some quantity \<Rightarrow>
          if py_le quantity (PyInt 0) then (JNull, tr)
          else (case place_order e (client info) (cfg_symbol cfg) ''buy'' ''market''
                       (Some (Num quantity)) None tr of
                  (result, tr') \<Rightarrow> (order_outcome result, tr')))"

text \<open>\<^verbatim>\<open>MultiAccountTrader.execute_buy_limit\<close>. The source computes
  \<^verbatim>\<open>formatted_sell_quantity\<close> and then passes \<^verbatim>\<open>quantity / price\<close> to \<^verbatim>\<open>place_order\<close>. What it
  computes for its messages is computed here as well, since each of these steps can
  raise, which makes the executor return \<open>None\<close>: \<^verbatim>\<open>int(quantity)\<close>, the formatter on the
  price, and the division.\<close>

definition execute_buy_limit ::
  "env \<Rightarrow> trading \<Rightarrow> string \<Rightarrow> account_info \<Rightarrow> user_inputs \<Rightarrow> call list \<Rightarrow> json \<times> call list"
  where
  "execute_buy_limit e cfg account_name info user_inputs tr =
     (case resolve_buy_amount user_inputs cfg of
        None \<Rightarrow> (JNull, tr)
      | Some quantity \<Rightarrow>
          (case (if price_from_market user_inputs cfg
                 then get_current_price e (client info) (cfg_symbol cfg) tr
                 else (None, tr)) of
             (current_price, tr1) \<Rightarrow>
               (let price = resolve_price user_inputs cfg current_price
                in if py_le quantity (PyInt 0) \<or> py_le price (PyInt 0) then (JNull, tr1)
                   else (case format_sell_quantity (rnd e) (float_of_str e) quantity of
                           None \<Rightarrow> (JNull, tr1)
                         | Some formatted_sell_quantity \<Rightarrow>
                             (case format_quantity_for_api (rnd e) (float_of_str e) (Num price) of
                                None \<Rightarrow> (JNull, tr1)
                              | Some formatted_price \<Rightarrow>
                                  (case py_truediv (rnd e) quantity price of
                                     None \<Rightarrow> (JNull, tr1)
                                   | Some estimated \<Rightarrow>
                                       (case place_order e (client info) (cfg_symbol cfg)
                                               ''buy'' ''limit'' (Some (Num (PyFloat estimated)))
                                               (Some (Num price)) tr1 of
                                          (result, tr') \<Rightarrow> (order_outcome result, tr'))))))))"

text \<open>The balance lookup of the two sell executors. \<open>None\<close> stands for every way in
  which they return \<open>None\<close> before they have a balance: no \<^verbatim>\<open>data\<close>, empty \<^verbatim>\<open>data\<close>, or an
  exception while reading it. The balance is the int \<open>0\<close> the loop starts from, or the
  float of the first asset with the coin's name.\<close>

fun find_available ::
  "(rat \<Rightarrow> rat) \<Rightarrow> (string \<Rightarrow> pyfloat option) \<Rightarrow> string \<Rightarrow> json list \<Rightarrow> num option" where
  "find_available r pf coin [] = Some (PyInt 0)"
| "find_available r pf coin (asset # assets) =
     (case subscript asset ''coinName'' of
        None \<Rightarrow> None
      | Some name \<Rightarrow>
          if name = JStr coin then
            (case subscript asset ''available'' of
               None \<Rightarrow> None
             | Some a \<Rightarrow> (case py_float r pf a of None \<Rightarrow> None | Some x \<Rightarrow> Some (PyFloat x)))
          else find_available r pf coin assets)"

definition read_balance ::
  "(rat \<Rightarrow> rat) \<Rightarrow> (string \<Rightarrow> pyfloat option) \<Rightarrow> string \<Rightarrow> json \<Rightarrow> num option" where
  "read_balance r pf coin assets =
     (case py_in ''data'' assets of
        None \<Rightarrow> None
      | Some False \<Rightarrow> None
      | Some True \<Rightarrow>
          (case subscript assets ''data'' of
             None \<Rightarrow> None
           | Some data \<Rightarrow>
               if \<not> truthy data then None
               else (case py_iter data of
                       None \<Rightarrow> None
                     | Some xs \<Rightarrow> find_available r pf coin xs)))"

text \<open>\<^verbatim>\<open>MultiAccountTrader.execute_sell_market\<close>. The market price is fetched for display
  only; the call is made all the same. The steps between the balance and the order are
  those of the source that can raise: the formatter on the balance, the quantity, the
  estimated value \<^verbatim>\<open>quantity * current_price\<close>, \<^verbatim>\<open>int(quantity)\<close> or the formatter on the
  quantity, and the formatter on the estimated value.\<close>

definition execute_sell_market ::
  "env \<Rightarrow> trading \<Rightarrow> string \<Rightarrow> account_info \<Rightarrow> user_inputs \<Rightarrow> call list \<Rightarrow> json \<times> call list"
  where
  "execute_sell_market e cfg account_name info user_inputs tr =
     (case get_account_assets e (client info) (Some (cfg_coin cfg)) tr of
        (assets, tr1) \<Rightarrow>
          (case read_balance (rnd e) (float_of_str e) (cfg_coin cfg) assets of
             None \<Rightarrow> (JNull, tr1)
           | Some available_balance \<Rightarrow>
               if py_le available_balance (PyInt 0) then (JNull, tr1)
               else
               (case format_quantity_for_api (rnd e) (float_of_str e) (Num available_balance) of
                  None \<Rightarrow> (JNull, tr1)
                | Some formatted_balance \<Rightarrow>
               (case resolve_sell_percentage user_inputs cfg of
                  None \<Rightarrow> (JNull, tr1)
                | Some sell_percentage \<Rightarrow>
                    if py_le sell_percentage (PyInt 0) \<or> py_lt (PyInt 100) sell_percentage
                    then (JNull, tr1)
                    else
               (case get_current_price e (client info) (cfg_symbol cfg) tr1 of
                  (price_or_none, tr2) \<Rightarrow>
               (let current_price = (case price_or_none of None \<Rightarrow> PyInt 0 | Some c \<Rightarrow> PyFloat c)
                in case sell_quantity (rnd e) available_balance sell_percentage of
                     None \<Rightarrow> (JNull, tr2)
                   | Some quantity \<Rightarrow>
               (case py_mul (rnd e) quantity current_price of
                  None \<Rightarrow> (JNull, tr2)
                | Some estimated_value \<Rightarrow>
               (case format_sell_quantity (rnd e) (float_of_str e) quantity of
                  None \<Rightarrow> (JNull, tr2)
                | Some formatted_sell_quantity \<Rightarrow>
                    if py_lt (PyInt 0) current_price \<and>
                       format_quantity_for_api (rnd e) (float_of_str e) (Num estimated_value) = None
                    then (JNull, tr2)
                    else
               (case place_order e (client info) (cfg_symbol cfg) ''sell'' ''market''
                       (Some formatted_sell_quantity) None tr2 of
                  (result, tr') \<Rightarrow> (order_outcome result, tr'))))))))))"

text \<open>\<^verbatim>\<open>MultiAccountTrader.execute_sell_limit\<close>. Here the market price is fetched before
  the parameters are looked up, and the estimated value is \<^verbatim>\<open>quantity * price\<close>.\<close>

definition execute_sell_limit ::
  "env \<Rightarrow> trading \<Rightarrow> string \<Rightarrow> account_info \<Rightarrow> user_inputs \<Rightarrow> call list \<Rightarrow> json \<times> call list"
  where
  "execute_sell_limit e cfg account_name info user_inputs tr =
     (case get_account_assets e (client info) (Some (cfg_coin cfg)) tr of
        (assets, tr1) \<Rightarrow>
          (case read_balance (rnd e) (float_of_str e) (cfg_coin cfg) assets of
             None \<Rightarrow> (JNull, tr1)
           | Some available_balance \<Rightarrow>
               if py_le available_balance (PyInt 0) then (JNull, tr1)
               else
               (case format_quantity_for_api (rnd e) (float_of_str e) (Num available_balance) of
                  None \<Rightarrow> (JNull, tr1)
                | Some formatted_balance \<Rightarrow>
               (case get_current_price e (client info) (cfg_symbol cfg) tr1 of
                  (current_price, tr2) \<Rightarrow>
               (case resolve_sell_percentage user_inputs cfg of
                  None \<Rightarrow> (JNull, tr2)
                | Some sell_percentage \<Rightarrow>
               (let price = resolve_price user_inputs cfg current_price
                in if py_le sell_percentage (PyInt 0) \<or> py_lt (PyInt 100) sell_percentage \<or>
                      py_le price (PyInt 0)
                   then (JNull, tr2)
                   else
               (case sell_quantity (rnd e) available_balance sell_percentage of
                  None \<Rightarrow> (JNull, tr2)
                | Some quantity \<Rightarrow>
               (case py_mul (rnd e) quantity price of
                  None \<Rightarrow> (JNull, tr2)
                | Some estimated_value \<Rightarrow>
               (case format_sell_quantity (rnd e) (float_of_str e) quantity of
                  None \<Rightarrow> (JNull, tr2)
                | Some formatted_sell_quantity \<Rightarrow>
                    if format_quantity_for_api (rnd e) (float_of_str e) (Num estimated_value) = None
                    then (JNull, tr2)
                    else
               (case place_order e (client info) (cfg_symbol cfg) ''sell'' ''limit''
                       (Some formatted_sell_quantity) (Some (Num price)) tr2 of
                  (result, tr') \<Rightarrow> (order_outcome result, tr')))))))))))"

text \<open>The two cancel executors differ in the side they filter on and in nothing else;
  \<open>cancel_limits\<close> is their common body.\<close>

text \<open>The list comprehension over \<^verbatim>\<open>open_orders\<close>; \<open>None\<close> when \<^verbatim>\<open>order.get\<close> raises.\<close>

fun filter_limit_orders :: "string \<Rightarrow> json list \<Rightarrow> json list option" where
  "filter_limit_orders side [] = Some []"
| "filter_limit_orders side (order # orders) =
     (case dict_get order ''side'' JNull of
        None \<Rightarrow> None
      | Some s \<Rightarrow>
          (case (if s = JStr side then dict_get order ''orderType'' JNull else Some JNull) of
             None \<Rightarrow> None
           | Some t \<Rightarrow>
               (case filter_limit_orders side orders of
                  None \<Rightarrow> None
                | Some rest \<Rightarrow>
                    Some (if s = JStr side \<and> t = JStr ''limit'' then order # rest else rest))))"

text \<open>The cancellation loop with its two counters; \<open>None\<close> when \<^verbatim>\<open>.get\<close> raises on an
  order or on a result that is not a dict.\<close>

fun cancel_each ::
  "env \<Rightarrow> string \<Rightarrow> string \<Rightarrow> json list \<Rightarrow> nat \<Rightarrow> nat \<Rightarrow> call list \<Rightarrow>
   (nat \<times> nat) option \<times> call list" where
  "cancel_each e acct symbol [] cancelled_count failed_count tr =
     (Some (cancelled_count, failed_count), tr)"
| "cancel_each e acct symbol (order # orders) cancelled_count failed_count tr =
     (case dict_get order ''orderId'' JNull of
        None \<Rightarrow> (None, tr)
      | Some order_id \<Rightarrow>
          (case cancel_order e acct symbol order_id tr of
             (result, tr') \<Rightarrow>
               (case dict_get result ''code'' JNull of
                  None \<Rightarrow> (None, tr')
                | Some code \<Rightarrow>
                    if code = JStr ''00000''
                    then cancel_each e acct symbol orders (cancelled_count + 1) failed_count tr'
                    else cancel_each e acct symbol orders cancelled_count (failed_count + 1) tr')))"

definition cancel_limits ::
  "string \<Rightarrow> env \<Rightarrow> trading \<Rightarrow> string \<Rightarrow> account_info \<Rightarrow> call list \<Rightarrow> json \<times> call list" where
  "cancel_limits side e cfg account_name info tr =
     (case get_open_orders e (client info) (cfg_symbol cfg) tr of
        (response, tr1) \<Rightarrow>
          (case dict_get response ''code'' JNull of
             None \<Rightarrow> (JNull, tr1)
           | Some code \<Rightarrow>
               if code \<noteq> JStr ''00000'' then (JNull, tr1)
               else (case py_in ''data'' response of
                       None \<Rightarrow> (JNull, tr1)
                     | Some False \<Rightarrow> (JNull, tr1)
                     | Some True \<Rightarrow>
                         (case subscript response ''data'' of
                            None \<Rightarrow> (JNull, tr1)
                          | Some open_orders \<Rightarrow>
                              (case py_iter open_orders of
                                 None \<Rightarrow> (JNull, tr1)
                               | Some orders \<Rightarrow>
                                   (case filter_limit_orders side orders of
                                      None \<Rightarrow> (JNull, tr1)
                                    | Some limit_orders \<Rightarrow>
                                        if limit_orders = [] then (JBool True, tr1)
                                        else (case cancel_each e (client info) (cfg_symbol cfg)
                                                     limit_orders 0 0 tr1 of
                                                (None, tr') \<Rightarrow> (JNull, tr')
                                              | (Some (cancelled_count, failed_count), tr') \<Rightarrow>
                                                  (JBool (0 < cancelled_count), tr'))))))))"

text \<open>\<^verbatim>\<open>MultiAccountTrader.execute_cancel_buy_limits\<close> and
  \<^verbatim>\<open>MultiAccountTrader.execute_cancel_sell_limits\<close>\<close>

definition execute_cancel_buy_limits ::
  "env \<Rightarrow> trading \<Rightarrow> string \<Rightarrow> account_info \<Rightarrow> call list \<Rightarrow> json \<times> call list" where
  "execute_cancel_buy_limits = cancel_limits ''buy''"

definition execute_cancel_sell_limits ::
  "env \<Rightarrow> trading \<Rightarrow> string \<Rightarrow> account_info \<Rightarrow> call list \<Rightarrow> json \<times> call list" where
  "execute_cancel_sell_limits = cancel_limits ''sell''"

text \<open>\<^verbatim>\<open>MultiAccountTrader.execute_action\<close>\<close>

definition execute_action ::
  "env \<Rightarrow> trading \<Rightarrow> string \<Rightarrow> account_info \<Rightarrow> string \<Rightarrow> user_inputs \<Rightarrow> call list \<Rightarrow>
   json \<times> call list" where
  "execute_action e cfg account_name info action user_inputs tr =
     (if action = ''buy_market'' then execute_buy_market e cfg account_name info user_inputs tr
      else if action = ''buy_limit'' then execute_buy_limit e cfg account_name info user_inputs tr
      else if action = ''sell_market'' then execute_sell_market e cfg account_name info user_inputs tr
      else if action = ''sell_limit'' then execute_sell_limit e cfg account_name info user_inputs tr
      else if action = ''cancel_buy_limits'' then execute_cancel_buy_limits e cfg account_name info tr
      else if action = ''cancel_sell_limits'' then execute_cancel_sell_limits e cfg account_name info tr
      else (JNull, tr))"

section \<open>MultiAccountTrader.trade_all_accounts\<close>

text \<open>A function that returns a value or raises: \<open>Raised m\<close> is an exception whose
  \<^verbatim>\<open>str\<close> is \<open>m\<close>.\<close>

datatype 'a outcome = Raised string | Returned 'a

text \<open>\<^verbatim>\<open>s.strip()\<close> removes the white space of both ends: the characters below code 256
  for which \<^verbatim>\<open>str.isspace\<close> holds.\<close>

definition is_space :: "char \<Rightarrow> bool" where
  "is_space c = (c \<in> set [CHR '' '', CHR 0x09, CHR 0x0A, CHR 0x0B, CHR 0x0C, CHR 0x0D,
                             CHR 0x1C, CHR 0x1D, CHR 0x1E, CHR 0x1F, CHR 0x85, CHR 0xA0])"

definition strip :: "string \<Rightarrow> string" where
  "strip s = rev (dropWhile is_space (rev (dropWhile is_space s)))"

text \<open>\<^verbatim>\<open>input(prompt).strip() or default\<close>\<close>

definition ask :: "env \<Rightarrow> prompt \<Rightarrow> string \<Rightarrow> string" where
  "ask e p dflt = (let s = strip (input e p) in if s \<noteq> [] then s else dflt)"

text \<open>\<^verbatim>\<open>str(current_price)\<close>, the default reply to the price prompt.\<close>

fun str_price :: "(rat \<Rightarrow> string) \<Rightarrow> pyfloat option \<Rightarrow> string" where
  "str_price sf None = ''None''"
| "str_price sf (Some p) = str_float sf p"

text \<open>\<^verbatim>\<open>rprint(message)\<close> followed by \<^verbatim>\<open>return results\<close>, which is how the block before the
  loop rejects a reply: the batch returns its empty result map, \<open>Returned None\<close> here,
  unless printing the message raises.\<close>

definition reject :: "env \<Rightarrow> string \<Rightarrow> user_inputs option outcome" where
  "reject e message = (case rprint e message of Some m \<Rightarrow> Raised m | None \<Rightarrow> Returned None)"

text \<open>The prompts for a buy amount, a sell percentage and a limit price, each with the
  \<^verbatim>\<open>try\<close> around \<^verbatim>\<open>float\<close>. A reply that is not a number is rejected; a percentage is
  rejected as well when \<^verbatim>\<open>p <= 0 or p > 100\<close> holds for it. An accepted reply is entered
  into \<^verbatim>\<open>user_inputs\<close>.\<close>

definition input_buy_amount :: "env \<Rightarrow> user_inputs \<Rightarrow> user_inputs option outcome" where
  "input_buy_amount e user_inputs =
     (let amount = ask e Ask_amount ''0''
      in case float_of_str e amount of
           None \<Rightarrow> reject e (''[bold red]Invalid amount: '' @ amount @ ''[/bold red]'')
         | Some a \<Rightarrow> Returned (Some (user_inputs\<lparr>ui_buy_amount := Some a\<rparr>)))"

definition input_sell_percentage :: "env \<Rightarrow> user_inputs \<Rightarrow> user_inputs option outcome" where
  "input_sell_percentage e user_inputs =
     (let percentage = ask e Ask_percentage ''100''
      in case float_of_str e percentage of
           None \<Rightarrow> reject e (''[bold red]Invalid percentage: '' @ percentage @ ''[/bold red]'')
         | Some p \<Rightarrow>
             if py_le (PyFloat p) (PyInt 0) \<or> py_lt (PyInt 100) (PyFloat p)
             then reject e (''[bold red]Invalid percentage: '' @ percentage @ ''[/bold red]'')
             else Returned (Some (user_inputs\<lparr>ui_sell_percentage := Some p\<rparr>)))"

definition input_price ::
  "env \<Rightarrow> pyfloat option \<Rightarrow> user_inputs \<Rightarrow> user_inputs option outcome" where
  "input_price e current_price user_inputs =
     (let price_input = ask e (Ask_price current_price) (str_price (str_of_float e) current_price)
      in case float_of_str e price_input of
           None \<Rightarrow> reject e (''[bold red]Invalid price: '' @ price_input @ ''[/bold red]'')
         | Some p \<Rightarrow> Returned (Some (user_inputs\<lparr>ui_price := Some p\<rparr>)))"

text \<open>Whether the block asks for the price:
  \<^verbatim>\<open>"price" not in self.config["trading"] or self.config["trading"]["price"] <= 0\<close>\<close>

definition price_wanted :: "trading \<Rightarrow> bool" where
  "price_wanted cfg = (case cfg_price cfg of None \<Rightarrow> True | Some p \<Rightarrow> py_le p (PyInt 0))"

text \<open>The message with the market price that the limit actions print when they have
  one: \<open>Some m\<close> when printing it raises.\<close>

definition show_price :: "env \<Rightarrow> trading \<Rightarrow> pyfloat option \<Rightarrow> string option" where
  "show_price e cfg current_price =
     (case current_price of
        None \<Rightarrow> None
      | Some c \<Rightarrow>
          if nonzero (PyFloat c)
          then rprint e ([CHR 0x0A] @ ''[cyan]Current '' @ cfg_coin cfg @ '' price: '' @
                         str_float (str_of_float e) c @ '' '' @ cfg_quote cfg @ ''[/cyan]'')
          else None)"

text \<open>The block of \<^verbatim>\<open>trade_all_accounts\<close> that collects \<^verbatim>\<open>user_inputs\<close> before the loop.
  The limit actions first ask the client of the first active account for the market
  price (\<^verbatim>\<open>next\<close> on no account at all raises \<^verbatim>\<open>StopIteration\<close>, whose message is empty).
  \<open>Returned None\<close> means that the method returns the empty \<^verbatim>\<open>results\<close> at once.\<close>

definition gather_inputs ::
  "env \<Rightarrow> trading \<Rightarrow> string \<Rightarrow> (string \<times> account_info) list \<Rightarrow> call list \<Rightarrow>
   user_inputs option outcome \<times> call list" where
  "gather_inputs e cfg action active_accounts tr =
     (if action = ''buy_market'' \<and> cfg_buy_amount cfg = None then
        (input_buy_amount e no_inputs, tr)
      else if action = ''buy_limit'' then
        (case active_accounts of
           [] \<Rightarrow> (Raised [], tr)
         | first # _ \<Rightarrow>
             (case get_current_price e (client (snd first)) (cfg_symbol cfg) tr of
                (current_price, tr1) \<Rightarrow>
                  (case show_price e cfg current_price of
                     Some m \<Rightarrow> (Raised m, tr1)
                   | None \<Rightarrow>
                       (case (if cfg_buy_amount cfg = None then input_buy_amount e no_inputs
                              else Returned (Some no_inputs)) of
                          Raised m \<Rightarrow> (Raised m, tr1)
                        | Returned None \<Rightarrow> (Returned None, tr1)
                        | Returned (Some user_inputs) \<Rightarrow>
                            if price_wanted cfg
                            then (input_price e current_price user_inputs, tr1)
                            else (Returned (Some user_inputs), tr1)))))
      else if action = ''sell_market'' \<and> cfg_sell_percentage cfg = None then
        (input_sell_percentage e no_inputs, tr)
      else if action = ''sell_limit'' then
        (case active_accounts of
           [] \<Rightarrow> (Raised [], tr)
         | first # _ \<Rightarrow>
             (case get_current_price e (client (snd first)) (cfg_symbol cfg) tr of
                (current_price, tr1) \<Rightarrow>
                  (case show_price e cfg current_price of
                     Some m \<Rightarrow> (Raised m, tr1)
                   | None \<Rightarrow>
                       (case (if cfg_sell_percentage cfg = None
                              then input_sell_percentage e no_inputs
                              else Returned (Some no_inputs)) of
                          Raised m \<Rightarrow> (Raised m, tr1)
                        | Returned None \<Rightarrow> (Returned None, tr1)
                        | Returned (Some user_inputs) \<Rightarrow>
                            if price_wanted cfg
                            then (input_price e current_price user_inputs, tr1)
                            else (Returned (Some user_inputs), tr1)))))
      else (Returned (Some no_inputs), tr))"

text \<open>The loop over the active accounts. Its body is a \<^verbatim>\<open>try\<close> around
  \<^verbatim>\<open>self.execute_action\<close> whose \<^verbatim>\<open>except Exception\<close> prints the exception and stores
  \<open>None\<close> for the account. The executor is a parameter here, so that the loop is defined
  for executors that raise as well. When printing the exception raises, the handler is
  left before it has stored anything and nothing catches the new exception: the method
  raises. \<^verbatim>\<open>results\<close> is a dict in insertion order.\<close>

type_synonym executor = "string \<Rightarrow> account_info \<Rightarrow> call list \<Rightarrow> reply \<times> call list"

definition handler_message :: "string \<Rightarrow> string \<Rightarrow> string" where
  "handler_message account_name m =
     ''[bold red]Account '' @ account_name @ '': Error: '' @ m @ ''[/bold red]''"

fun run_accounts ::
  "env \<Rightarrow> executor \<Rightarrow> (string \<times> account_info) list \<Rightarrow> (string \<times> json) list \<Rightarrow> call list \<Rightarrow>
   (string \<times> json) list outcome \<times> call list" where
  "run_accounts e ex [] results tr = (Returned results, tr)"
| "run_accounts e ex ((account_name, info) # accounts) results tr =
     (case ex account_name info tr of
        (Returns result, tr') \<Rightarrow>
          run_accounts e ex accounts (AList.update account_name result results) tr'
      | (Raises m, tr') \<Rightarrow>
          (case rprint e (handler_message account_name m) of
             Some m' \<Rightarrow> (Raised m', tr')
           | None \<Rightarrow>
               run_accounts e ex accounts (AList.update account_name JNull results) tr'))"

text \<open>\<^verbatim>\<open>trade_all_accounts\<close> with the executor as a parameter, and with the executor of
  the script. \<^verbatim>\<open>self.clients\<close> is a dict in insertion order. The summary panel that ends
  the method prints two counts and raises nothing.\<close>

definition trade_all_accounts_with ::
  "(user_inputs \<Rightarrow> executor) \<Rightarrow> env \<Rightarrow> trading \<Rightarrow> (string \<times> account_info) list \<Rightarrow> string \<Rightarrow>
   call list \<Rightarrow> (string \<times> json) list outcome \<times> call list" where
  "trade_all_accounts_with ex e cfg clients action tr =
     (let active_accounts = filter (\<lambda>(name, info). active info) clients
      in if active_accounts = [] then (Returned [], tr)
         else (case gather_inputs e cfg action active_accounts tr of
                 (Raised m, tr1) \<Rightarrow> (Raised m, tr1)
               | (Returned None, tr1) \<Rightarrow> (Returned [], tr1)
               | (Returned (Some user_inputs), tr1) \<Rightarrow>
                   run_accounts e (ex user_inputs) active_accounts [] tr1))"

definition script_executor :: "env \<Rightarrow> trading \<Rightarrow> string \<Rightarrow> user_inputs \<Rightarrow> executor" where
  "script_executor e cfg action user_inputs account_name info tr =
     (case execute_action e cfg account_name info action user_inputs tr of
        (result, tr') \<Rightarrow> (Returns result, tr'))"

definition trade_all_accounts ::
  "env \<Rightarrow> trading \<Rightarrow> (string \<times> account_info) list \<Rightarrow> string \<Rightarrow> call list \<Rightarrow>
   (string \<times> json) list outcome \<times> call list" where
  "trade_all_accounts e cfg clients action tr =
     trade_all_accounts_with (script_executor e cfg action) e cfg clients action tr"

text \<open>The two counts of the summary panel: \<^verbatim>\<open>len([r for r in results.values() if r])\<close>
  and \<^verbatim>\<open>len(results)\<close>.\<close>

definition success_count :: "(string \<times> json) list \<Rightarrow> nat" where
  "success_count results = length (filter truthy (map snd results))"

definition total_count :: "(string \<times> json) list \<Rightarrow> nat" where
  "total_count results = length results"

text \<open>The requests a trace holds, by kind.\<close>

fun is_place_order :: "call \<Rightarrow> bool" where
  "is_place_order (a, Spot_place_order ps) = True"
| "is_place_order (a, _) = False"

fun is_balance_query :: "call \<Rightarrow> bool" where
  "is_balance_query (a, Spot_get_account_assets c) = True"
| "is_balance_query (a, _) = False"

fun is_cancel :: "call \<Rightarrow> bool" where
  "is_cancel (a, Spot_cance_order s i) = True"
| "is_cancel (a, _) = False"

text \<open>The calls that a run starting at trace \<open>tr\<close> and ending at \<open>tr'\<close> has added.\<close>

definition new_calls :: "call list \<Rightarrow> call list \<Rightarrow> call list" where
  "new_calls tr tr' = drop (length tr) tr'"

text \<open>The five parameters every order request starts with, and the balance that a sell
  executor started at trace \<open>tr\<close> reads from the answer to its balance query.\<close>

definition order_params ::
  "env \<Rightarrow> string \<Rightarrow> string \<Rightarrow> string \<Rightarrow> call list \<Rightarrow> (string \<times> string) list" where
  "order_params e symbol side orderType tr =
     [(''symbol'', symbol), (''side'', side), (''orderType'', orderType), (''force'', ''gtc''),
      (''clientOrderId'', str_int (py_int (rnd e (clock e tr * 1000))))]"

definition balance_read :: "env \<Rightarrow> trading \<Rightarrow> account_info \<Rightarrow> call list \<Rightarrow> num option" where
  "balance_read e cfg info tr =
     read_balance (rnd e) (float_of_str e) (cfg_coin cfg)
       (fst (get_account_assets e (client info) (Some (cfg_coin cfg)) tr))"

text \<open>The value of the \<^verbatim>\<open>quantity\<close> parameter of an order request.\<close>

fun sent_quantity :: "call \<Rightarrow> string option" where
  "sent_quantity (a, Spot_place_order ps) = map_of ps ''quantity''"
| "sent_quantity (a, _) = None"

fun sent_price :: "call \<Rightarrow> string option" where
  "sent_price (a, Spot_place_order ps) = map_of ps ''price''"
| "sent_price (a, _) = None"

text \<open>The quantity string as the specification words it: the truncated integer from one
  unit on, the formatter's output otherwise. There is none when \<^verbatim>\<open>int\<close> raises, which it
  does on an infinite quantity.\<close>

definition quantity_string ::
  "(rat \<Rightarrow> rat) \<Rightarrow> (string \<Rightarrow> pyfloat option) \<Rightarrow> num \<Rightarrow> string option" where
  "quantity_string r pf q =
     (if py_le (PyInt 1) q then map_option str_int (int_of_num q)
      else format_quantity_for_api r pf (Num q))"

text \<open>The limit price that \<^verbatim>\<open>execute_sell_limit\<close>, started at trace \<open>tr\<close>, arrives at. It asks
  for the market price after its balance query.\<close>

definition sell_limit_price :: "env \<Rightarrow> trading \<Rightarrow> account_info \<Rightarrow> user_inputs \<Rightarrow> call list \<Rightarrow> num" where
  "sell_limit_price e cfg info ui tr =
     resolve_price ui cfg
       (fst (get_current_price e (client info) (cfg_symbol cfg)
               (snd (get_account_assets e (client info) (Some (cfg_coin cfg)) tr))))"

text \<open>The balance query a sell executor makes for an account.\<close>

definition balance_query :: "trading \<Rightarrow> account_info \<Rightarrow> call" where
  "balance_query cfg info =
     (client info, Spot_get_account_assets (if cfg_coin cfg \<noteq> [] then cfg_coin cfg else ''SPELL''))"

text \<open>The cancel executors in the words of the specification. An open order matches when
  its side is the one asked for and its type is \<open>limit\<close>; the cancel call for an order
  carries its \<^verbatim>\<open>orderId\<close>; the \<open>i\<close>-th cancellation of a list of orders, started at trace
  \<open>tr\<close>, has succeeded when its result has the code \<open>00000\<close>.\<close>

definition order_matches :: "string \<Rightarrow> json \<Rightarrow> bool" where
  "order_matches side order =
     (dict_get order ''side'' JNull = Some (JStr side) \<and>
      dict_get order ''orderType'' JNull = Some (JStr ''limit''))"

definition cancel_call :: "string \<Rightarrow> string \<Rightarrow> json \<Rightarrow> call" where
  "cancel_call acct symbol order =
     (acct, Spot_cance_order symbol
              (case dict_get order ''orderId'' JNull of None \<Rightarrow> JNull | Some i \<Rightarrow> i))"

definition cancel_succeeded ::
  "env \<Rightarrow> string \<Rightarrow> string \<Rightarrow> call list \<Rightarrow> json list \<Rightarrow> nat \<Rightarrow> bool" where
  "cancel_succeeded e acct symbol tr orders i =
     (dict_get
        (fst (cancel_order e acct symbol
                (case dict_get (orders ! i) ''orderId'' JNull of None \<Rightarrow> JNull | Some i \<Rightarrow> i)
                (tr @ map (cancel_call acct symbol) (take i orders))))
        ''code'' JNull = Some (JStr ''00000''))"

fun is_dict :: "json \<Rightarrow> bool" where
  "is_dict (JObj d) = True"
| "is_dict _ = False"

text \<open>An exchange whose answers to cancel requests are JSON objects.\<close>

definition cancel_replies_are_dicts :: "env \<Rightarrow> bool" where
  "cancel_replies_are_dicts e =
     (\<forall>tr a s i r. exchange e tr (a, Spot_cance_order s i) = Returns r \<longrightarrow> is_dict r)"

text \<open>The price of a limit order is one that \<^verbatim>\<open>place_order\<close> accepts: it is not zero and
  \<^verbatim>\<open>float(price)\<close> is a float that is not \<^verbatim>\<open><= 0\<close>.\<close>

definition price_accepted :: "env \<Rightarrow> num \<Rightarrow> bool" where
  "price_accepted e price =
     (nonzero price \<and>
      (case to_float (rnd e) price of
         None \<Rightarrow> False
       | Some p \<Rightarrow> \<not> py_le (PyFloat p) (PyInt 0)))"

text \<open>The exact value of a finite number.\<close>

fun exact_value :: "num \<Rightarrow> rat" where
  "exact_value (PyInt i) = of_int i"
| "exact_value (PyFloat x) = (case finite_value x of None \<Rightarrow> 0 | Some v \<Rightarrow> v)"

section \<open>A concrete exchange\<close>

text \<open>Fixed answers of an exchange, a configuration and a list of accounts, on which the
  theorems below are exercised. \<open>alice\<close> holds 0.002 BTC and has three open limit orders,
  the first of which cannot be cancelled; \<open>bob\<close> holds nothing and every cancellation of
  his is refused; \<open>dave\<close> has no open orders; for \<open>carol\<close> every call raises; \<open>zed\<close> is
  not active. \<open>demo_float\<close> and \<open>demo_str\<close> stand for \<^verbatim>\<open>float\<close> and \<^verbatim>\<open>str\<close> on the few
  values that occur, \<open>demo_rprint\<close> for \<^verbatim>\<open>rich.print\<close> on messages with and without
  the stray closing tag \<^verbatim>\<open>[/x]\<close>.\<close>

definition demo_float :: "string \<Rightarrow> pyfloat option" where
  "demo_float s =
     (if s = ''0.002'' then Some (Finite (2 / 1000))
      else if s = ''0'' then Some (Finite 0)
      else if s = ''1.5'' then Some (Finite (3 / 2))
      else if s = ''50'' then Some (Finite 50)
      else if s = ''100'' then Some (Finite 100)
      else if s = ''150'' then Some (Finite 150)
      else if s = ''-5'' then Some (Finite (- 5))
      else if s = ''50000'' then Some (Finite 50000)
      else if s = ''50000.0'' then Some (Finite 50000)
      else if s = ''1.17e-05'' then Some (Finite (117 / 10000000))
      else if s = ''Infinity'' then Some PosInf
      else if s = ''nan'' then Some NaN
      else None)"

definition demo_str :: "rat \<Rightarrow> string" where
  "demo_str x =
     (if of_int \<lfloor>x\<rfloor> = x then rstrip (CHR ''.'') (rstrip (CHR ''0'') (fixed_7 x)) @ ''.0''
      else rstrip (CHR ''.'') (rstrip (CHR ''0'') (fixed_7 x)))"

definition demo_rprint :: "string \<Rightarrow> string option" where
  "demo_rprint s =
     (if is_substring ''[/x]'' s then Some ''closing tag [/x] does not match any open tag''
      else None)"

definition demo_orders :: "string \<Rightarrow> json" where
  "demo_orders acct =
     JArr (if acct = ''dave'' then []
           else [JObj [(''orderId'', JStr ''1''), (''side'', JStr ''buy''), (''orderType'', JStr ''limit'')],
                 JObj [(''orderId'', JStr ''2''), (''side'', JStr ''sell''), (''orderType'', JStr ''limit'')],
                 JObj [(''orderId'', JStr ''3''), (''side'', JStr ''buy''), (''orderType'', JStr ''limit'')]])"

definition demo_exchange :: "call list \<Rightarrow> call \<Rightarrow> reply" where
  "demo_exchange tr c =
     (case c of (acct, req) \<Rightarrow>
        if acct = ''carol'' then Raises ''timeout''
        else (case req of
                Spot_get_account_assets coin \<Rightarrow>
                  Returns (JObj [(''code'', JStr ''00000''),
                                 (''data'', JArr [JObj [(''coinName'', JStr ''BTC''),
                                    (''available'', JStr (if acct = ''bob'' then ''0'' else ''0.002''))]])])
              | Spot_place_order ps \<Rightarrow>
                  Returns (JObj [(''code'', JStr ''00000''),
                                 (''data'', JObj [(''orderId'', JStr ''1001'')])])
              | Spot_get_ticker symbol \<Rightarrow>
                  Returns (JObj [(''code'', JStr ''00000''),
                                 (''data'', JObj [(''close'', JStr ''50000'')])])
              | Spot_get_open_orders symbol \<Rightarrow>
                  Returns (JObj [(''code'', JStr ''00000''), (''data'', demo_orders acct)])
              | Spot_cance_order symbol order_id \<Rightarrow>
                  if acct = ''bob'' \<or> order_id = JStr ''1''
                  then Returns (JObj [(''code'', JStr ''43001''), (''msg'', JStr ''refused'')])
                  else Returns (JObj [(''code'', JStr ''00000'')])))"

definition demo_env :: env where
  "demo_env =
     \<lparr>exchange = demo_exchange, clock = (\<lambda>tr. 1700000000 + 123 / 1000), rnd = (\<lambda>x. x),
      float_of_str = demo_float, str_of_float = demo_str, input = (\<lambda>p. ''''),
      rprint = demo_rprint\<rparr>"

definition demo_cfg :: trading where
  "demo_cfg =
     \<lparr>cfg_symbol = ''BTCUSDT_SPBL'', cfg_coin = ''BTC'', cfg_quote = ''USDT'',
      cfg_buy_amount = None, cfg_sell_percentage = None, cfg_price = None\<rparr>"

definition demo_info :: "string \<Rightarrow> bool \<Rightarrow> account_info" where
  "demo_info name a = \<lparr>client = name, active = a\<rparr>"

text \<open>An executor that raises for \<open>carol\<close>, with a message that holds the closing tag, and
  returns \<open>True\<close> for everybody else; and one whose message for \<open>carol\<close> is plain.\<close>

definition demo_faulty_executor :: "user_inputs \<Rightarrow> executor" where
  "demo_faulty_executor ui name info tr =
     (if name = ''carol'' then (Raises ''bad reply [/x]'', tr) else (Returns (JBool True), tr))"

definition demo_plain_executor :: "user_inputs \<Rightarrow> executor" where
  "demo_plain_executor ui name info tr =
     (if name = ''carol'' then (Raises ''timeout'', tr) else (Returns (JBool True), tr))"

section \<open>Properties of the quantity formatter\<close>


lemma digit_nth: "n < 10 \<Longrightarrow> is_digit (digit_chars ! n)"
  unfolding is_digit_def by (rule nth_mem) (simp add: digit_chars_def)

lemma str_nat_digits: "list_all is_digit (str_nat n)"
proof (induction n rule: str_nat.induct)
  case (1 n)
  show ?case
  proof (cases "n < 10")
    case True
    then show ?thesis by (subst str_nat.simps) (simp add: digit_nth)
  next
    case False
    with 1 show ?thesis by (subst str_nat.simps) (simp add: digit_nth)
  qed
qed

lemma str_nat_nonempty: "str_nat n \<noteq> []"
  by (subst str_nat.simps) simp

lemma str_nat_length: "n < 10 ^ k \<Longrightarrow> 0 < k \<Longrightarrow> length (str_nat n) \<le> k"
proof (induction n arbitrary: k rule: str_nat.induct)
  case (1 n)
  show ?case
  proof (cases "n < 10")
    case True
    with 1 show ?thesis by (subst str_nat.simps) simp
  next
    case False
    obtain j where k: "k = Suc j" using 1(3) by (cases k) auto
    have "j \<noteq> 0" using False 1(2) k by (cases j) auto
    moreover have "n div 10 < 10 ^ j" using 1(2) k by (simp add: less_mult_imp_div_less mult.commute)
    ultimately have "length (str_nat (n div 10)) \<le> j" using 1(1) [OF False, of j] by simp
    with False k show ?thesis by (subst str_nat.simps) simp
  qed
qed

lemma not_digit_point: "\<not> is_digit (CHR ''.'')" and not_digit_minus: "\<not> is_digit (CHR ''-'')"
  and digit_zero: "is_digit (CHR ''0'')" and not_digit_e: "\<not> is_digit (CHR ''e'')" "\<not> is_digit (CHR ''E'')"
  by (simp_all add: is_digit_def digit_chars_def)

lemma list_all_last: "xs \<noteq> [] \<Longrightarrow> list_all P xs \<Longrightarrow> P (last xs)"
  by (simp add: list_all_iff)

lemma rstrip_append_keep: "d \<noteq> c \<Longrightarrow> rstrip c (xs @ d # ys) = xs @ d # rstrip c ys"
  by (simp add: rstrip_def dropWhile_append)

lemma rstrip_snoc_same: "rstrip c (xs @ [c]) = rstrip c xs"
  by (simp add: rstrip_def)

lemma rstrip_id: "s \<noteq> [] \<Longrightarrow> last s \<noteq> c \<Longrightarrow> rstrip c s = s"
  by (cases s rule: rev_cases) (auto simp: rstrip_def)

lemma rstrip_last: "rstrip c s \<noteq> [] \<Longrightarrow> last (rstrip c s) \<noteq> c"
  unfolding rstrip_def using hd_dropWhile [of "\<lambda>x. x = c" "rev s"]
  by (simp add: last_rev)

lemma rstrip_all: "list_all P s \<Longrightarrow> list_all P (rstrip c s)"
  unfolding rstrip_def list_all_iff by (auto dest: set_dropWhileD)

lemma rstrip_length: "length (rstrip c s) \<le> length s"
  unfolding rstrip_def using length_dropWhile_le [of "\<lambda>x. x = c" "rev s"] by simp

lemma digit_value_nth: "n < 10 \<Longrightarrow> digit_value (digit_chars ! n) = n"
proof -
  assume "n < 10"
  then have "n \<in> {0, 1, 2, 3, 4, 5, 6, 7, 8, 9}" by auto
  then show ?thesis
    by (auto simp: digit_value_def digit_chars_def)
qed

lemma nat_of_digits_append:
  "nat_of_digits (xs @ ys) = nat_of_digits xs * 10 ^ length ys + nat_of_digits ys"
proof (induction ys rule: rev_induct)
  case Nil
  then show ?case by (simp add: nat_of_digits_def)
next
  case (snoc c ys)
  have "nat_of_digits (xs @ ys @ [c]) = 10 * nat_of_digits (xs @ ys) + digit_value c"
    by (simp add: nat_of_digits_def)
  also have "\<dots> = nat_of_digits xs * 10 ^ length (ys @ [c]) + (10 * nat_of_digits ys + digit_value c)"
    by (simp add: snoc.IH algebra_simps)
  also have "10 * nat_of_digits ys + digit_value c = nat_of_digits (ys @ [c])"
    by (simp add: nat_of_digits_def)
  finally show ?case by simp
qed

lemma nat_of_digits_single: "nat_of_digits [c] = digit_value c"
  by (simp add: nat_of_digits_def)

lemma nat_of_digits_str_nat: "nat_of_digits (str_nat n) = n"
proof (induction n rule: str_nat.induct)
  case (1 n)
  show ?case
  proof (cases "n < 10")
    case True
    then show ?thesis
      by (subst str_nat.simps) (simp add: nat_of_digits_single digit_value_nth)
  next
    case False
    with 1 show ?thesis
      by (subst str_nat.simps)
         (simp add: nat_of_digits_append nat_of_digits_single digit_value_nth)
  qed
qed

lemma nat_of_digits_zeros: "nat_of_digits (replicate k (CHR ''0'')) = 0"
  by (induction k) (simp_all add: nat_of_digits_def digit_value_def)

lemma takeWhile_eq_replicate:
  "takeWhile (\<lambda>x. x = c) xs = replicate (length (takeWhile (\<lambda>x. x = c) xs)) c"
  by (induction xs) auto

lemma rstrip_decompose: "\<exists>k. s = rstrip c s @ replicate k c"
proof -
  have "rev s = takeWhile (\<lambda>x. x = c) (rev s) @ dropWhile (\<lambda>x. x = c) (rev s)" by simp
  then have "s = rev (dropWhile (\<lambda>x. x = c) (rev s)) @ rev (takeWhile (\<lambda>x. x = c) (rev s))"
    by (metis rev_append rev_rev_ident)
  also have "rev (takeWhile (\<lambda>x. x = c) (rev s)) =
             replicate (length (takeWhile (\<lambda>x. x = c) (rev s))) c"
    by (subst takeWhile_eq_replicate) simp
  finally show ?thesis unfolding rstrip_def by blast
qed

lemma round_half_even_nonneg: "0 \<le> x \<Longrightarrow> 0 \<le> round_half_even x"
  by (auto simp: round_half_even_def Let_def)


lemma div_mod_rat:
  assumes "0 < d"
  shows "of_nat (n div d) + of_nat (n mod d) / of_nat d = (of_nat n / of_nat d :: rat)"
proof -
  have "of_nat n = (of_nat (n div d * d + n mod d) :: rat)" by simp
  also have "\<dots> = of_nat (n div d) * of_nat d + of_nat (n mod d)"
    by (simp only: of_nat_add of_nat_mult)
  finally show ?thesis using assms by (simp add: field_simps)
qed

text \<open>The digits of the formatter's output for a finite value, and the number they
  denote.\<close>

lemma trimmed_shape:
  "\<exists>sign ip fs. rstrip (CHR ''.'') (rstrip (CHR ''0'') (fixed_7 x)) =
                   sign @ ip @ (if fs = [] then [] else CHR ''.'' # fs) \<and>
     (sign = [] \<or> sign = ''-'') \<and> ip \<noteq> [] \<and> list_all is_digit ip \<and>
     list_all is_digit fs \<and> length fs \<le> 7 \<and> (fs \<noteq> [] \<longrightarrow> last fs \<noteq> CHR ''0'') \<and>
     (if sign = ''-'' then - 1 else 1) *
       (of_nat (nat_of_digits ip) + of_nat (nat_of_digits fs) / 10 ^ length fs) = round_7 x"
proof -
  define n where "n = nat (round_half_even (\<bar>x\<bar> * 10000000))"
  define sign where "sign = (if x < 0 then ''-'' else '''')"
  define ip where "ip = str_nat (n div 10000000)"
  define frac where "frac = str_nat (n mod 10000000)"
  define fr where "fr = replicate (7 - length frac) (CHR ''0'') @ frac"
  define fs where "fs = rstrip (CHR ''0'') fr"
  have f7: "fixed_7 x = (sign @ ip) @ CHR ''.'' # fr"
    by (simp add: fixed_7_def Let_def n_def sign_def ip_def frac_def fr_def)
  have ip: "ip \<noteq> []" "list_all is_digit ip"
    by (simp_all add: ip_def str_nat_nonempty str_nat_digits)
  have "n mod 10000000 < 10 ^ 7" by simp
  then have lf: "length frac \<le> 7" unfolding frac_def by (rule str_nat_length) simp
  have fr: "length fr = 7" "list_all is_digit fr"
    using lf str_nat_digits [of "n mod 10000000"]
    by (auto simp: fr_def frac_def digit_zero list_all_iff)
  have fs: "list_all is_digit fs" "length fs \<le> 7" "fs \<noteq> [] \<longrightarrow> last fs \<noteq> CHR ''0''"
    using fr rstrip_length [of "CHR ''0''" fr] rstrip_last [of "CHR ''0''" fr]
    by (simp_all add: fs_def rstrip_all)
  have s0: "rstrip (CHR ''0'') (fixed_7 x) = (sign @ ip) @ CHR ''.'' # fs"
    unfolding f7 fs_def by (rule rstrip_append_keep) simp
  have lip: "last (sign @ ip) \<noteq> CHR ''.''"
    using ip list_all_last [of ip is_digit] not_digit_point by auto
  have "rstrip (CHR ''.'') ((sign @ ip) @ CHR ''.'' # fs) = sign @ ip @ (if fs = [] then [] else CHR ''.'' # fs)"
  proof (cases "fs = []")
    case True
    have "rstrip (CHR ''.'') ((sign @ ip) @ [CHR ''.'']) = sign @ ip"
      using ip lip by (simp only: rstrip_snoc_same) (simp add: rstrip_id)
    with True show ?thesis by simp
  next
    case False
    then have "last fs \<noteq> CHR ''.''"
      using fs(1) list_all_last [of fs is_digit] not_digit_point by auto
    with False have "rstrip (CHR ''.'') ((sign @ ip) @ CHR ''.'' # fs) = (sign @ ip) @ CHR ''.'' # fs"
      by (intro rstrip_id) simp_all
    with False show ?thesis by simp
  qed
  then have shape: "rstrip (CHR ''.'') (rstrip (CHR ''0'') (fixed_7 x)) =
                    sign @ ip @ (if fs = [] then [] else CHR ''.'' # fs)"
    by (simp add: s0)
  have sg: "sign = [] \<or> sign = ''-''" by (simp add: sign_def)
  obtain k where k: "fr = fs @ replicate k (CHR ''0'')"
    using rstrip_decompose [of fr "CHR ''0''"] unfolding fs_def by blast
  have len: "length fs + k = 7" using fr(1) by (simp add: k)
  have nfr: "nat_of_digits fr = n mod 10000000"
    by (simp add: fr_def nat_of_digits_append nat_of_digits_zeros frac_def nat_of_digits_str_nat)
  have "nat_of_digits fr = nat_of_digits fs * 10 ^ k"
    by (simp add: k nat_of_digits_append nat_of_digits_zeros)
  then have "(of_nat (nat_of_digits fr) :: rat) = of_nat (nat_of_digits fs) * 10 ^ k" by simp
  moreover have "(10 :: rat) ^ 7 = 10 ^ length fs * 10 ^ k"
    using len by (simp flip: power_add)
  ultimately have "(of_nat (nat_of_digits fs) / 10 ^ length fs :: rat) =
                   of_nat (nat_of_digits fr) / 10 ^ 7"
    by (simp add: field_simps)
  then have frac_val: "(of_nat (nat_of_digits fs) / 10 ^ length fs :: rat) =
                       of_nat (n mod 10000000) / 10000000"
    by (simp add: nfr)
  have "(of_nat (nat_of_digits ip) :: rat) = of_nat (n div 10000000)"
    by (simp add: ip_def nat_of_digits_str_nat)
  then have "(of_nat (nat_of_digits ip) + of_nat (nat_of_digits fs) / 10 ^ length fs :: rat) =
             of_nat (n div 10000000) + of_nat (n mod 10000000) / of_nat 10000000"
    by (simp add: frac_val)
  also have "\<dots> = of_nat n / of_nat 10000000" by (rule div_mod_rat) simp
  also have "(of_nat n :: rat) = of_int (round_half_even (\<bar>x\<bar> * 10000000))"
    unfolding n_def using round_half_even_nonneg [of "\<bar>x\<bar> * 10000000"] by simp
  finally have v: "(of_nat (nat_of_digits ip) + of_nat (nat_of_digits fs) / 10 ^ length fs :: rat) =
                   of_int (round_half_even (\<bar>x\<bar> * 10000000)) / 10000000"
    by simp
  have "(if sign = ''-'' then - 1 else 1) *
          (of_nat (nat_of_digits ip) + of_nat (nat_of_digits fs) / 10 ^ length fs) = round_7 x"
    unfolding v by (simp add: round_7_def sign_def)
  with shape sg ip fs show ?thesis by blast
qed

lemma plain_decimalI:
  assumes "sign = [] \<or> sign = ''-''" "ip \<noteq> []" "list_all is_digit ip" "list_all is_digit fs"
    "length fs \<le> 7" "fs \<noteq> [] \<longrightarrow> last fs \<noteq> CHR ''0''"
  shows "plain_decimal (sign @ ip @ (if fs = [] then [] else CHR ''.'' # fs))"
    and "decimal_value (sign @ ip @ (if fs = [] then [] else CHR ''.'' # fs)) =
           (if sign = ''-'' then - 1 else 1) *
           (of_nat (nat_of_digits ip) + of_nat (nat_of_digits fs) / 10 ^ length fs)"
proof -
  let ?rest = "if fs = [] then [] else CHR ''.'' # fs"
  let ?s = "sign @ ip @ ?rest"
  have hd_ip: "hd ip \<noteq> CHR ''-''"
    using assms(2,3) not_digit_minus by (cases ip) auto
  have neg: "(?s \<noteq> [] \<and> hd ?s = CHR ''-'') = (sign = ''-'')"
    using assms(1,2) hd_ip by (cases ip) auto
  have body: "(if ?s \<noteq> [] \<and> hd ?s = CHR ''-'' then tl ?s else ?s) = ip @ ?rest"
    using assms(1,2) hd_ip by (cases ip) auto
  have tw: "takeWhile is_digit (ip @ ?rest) = ip"
    using assms(3) not_digit_point by (auto simp: list_all_iff takeWhile_append)
  have dw: "dropWhile is_digit (ip @ ?rest) = ?rest"
    using assms(3) not_digit_point by (auto simp: list_all_iff dropWhile_append)
  show "plain_decimal ?s"
    unfolding plain_decimal_def body Let_def tw dw using assms by auto
  have fs0: "(if ?rest = [] then [] else tl ?rest) = fs" by simp
  show "decimal_value ?s =
           (if sign = ''-'' then - 1 else 1) *
           (of_nat (nat_of_digits ip) + of_nat (nat_of_digits fs) / 10 ^ length fs)"
    unfolding decimal_value_def Let_def neg
    by (simp only: body [unfolded neg] tw dw fs0)
qed

lemma shape_no_exponent:
  assumes "sign = [] \<or> sign = ''-''" "list_all is_digit ip" "list_all is_digit fs"
  shows "CHR ''e'' \<notin> set (sign @ ip @ (if fs = [] then [] else CHR ''.'' # fs)) \<and>
         CHR ''E'' \<notin> set (sign @ ip @ (if fs = [] then [] else CHR ''.'' # fs))"
  using assms not_digit_e by (auto simp: list_all_iff)

lemma trimmed_plain_decimal:
  "plain_decimal (rstrip (CHR ''.'') (rstrip (CHR ''0'') (fixed_7 x)))"
  "CHR ''e'' \<notin> set (rstrip (CHR ''.'') (rstrip (CHR ''0'') (fixed_7 x)))"
  "CHR ''E'' \<notin> set (rstrip (CHR ''.'') (rstrip (CHR ''0'') (fixed_7 x)))"
  "decimal_value (rstrip (CHR ''.'') (rstrip (CHR ''0'') (fixed_7 x))) = round_7 x"
proof -
  obtain sign ip fs where
    shape: "rstrip (CHR ''.'') (rstrip (CHR ''0'') (fixed_7 x)) =
            sign @ ip @ (if fs = [] then [] else CHR ''.'' # fs)"
    and parts: "sign = [] \<or> sign = ''-''" "ip \<noteq> []" "list_all is_digit ip"
      "list_all is_digit fs" "length fs \<le> 7" "fs \<noteq> [] \<longrightarrow> last fs \<noteq> CHR ''0''"
    and v: "(if sign = ''-'' then - 1 else 1) *
       (of_nat (nat_of_digits ip) + of_nat (nat_of_digits fs) / 10 ^ length fs) = round_7 x"
    using trimmed_shape [of x] by blast
  show "plain_decimal (rstrip (CHR ''.'') (rstrip (CHR ''0'') (fixed_7 x)))"
    unfolding shape using parts by (rule plain_decimalI(1))
  show "CHR ''e'' \<notin> set (rstrip (CHR ''.'') (rstrip (CHR ''0'') (fixed_7 x)))"
       "CHR ''E'' \<notin> set (rstrip (CHR ''.'') (rstrip (CHR ''0'') (fixed_7 x)))"
    unfolding shape using shape_no_exponent [OF parts(1,3,4)] by simp_all
  show "decimal_value (rstrip (CHR ''.'') (rstrip (CHR ''0'') (fixed_7 x))) = round_7 x"
    unfolding shape plain_decimalI(2) [OF parts] by (rule v)
qed

lemma format_number_finite:
  "to_float r n = Some (Finite x) \<Longrightarrow>
   format_number r n = Some (rstrip (CHR ''.'') (rstrip (CHR ''0'') (fixed_7 x)))"
  by (simp add: format_number_def)

lemma format_number_float: "format_number r (PyFloat x) \<noteq> None"
  by (simp add: format_number_def)


subsection \<open>Evaluation on numerals\<close>

text \<open>\<open>str_nat\<close> recurses under an \<open>if\<close>; these rules unfold it on numerals only.\<close>

lemma str_nat_numeral:
  "str_nat (numeral k) = (if (numeral k :: nat) < 10 then [digit_chars ! numeral k]
     else str_nat (numeral k div 10) @ [digit_chars ! (numeral k mod 10)])"
  by (rule str_nat.simps)

lemma str_nat_0: "str_nat 0 = ''0''"
  by (subst str_nat.simps) (simp add: digit_chars_def)

lemma str_nat_1: "str_nat 1 = ''1''" "str_nat (Suc 0) = ''1''"
  by (subst str_nat.simps, simp add: digit_chars_def)+

lemma replicate_numeral: "replicate (numeral k) x = x # replicate (pred_numeral k) x"
  by (simp add: numeral_eq_Suc)

lemma floor_rat_numeral: "\<lfloor>(numeral a :: rat) / numeral b\<rfloor> = numeral a div numeral b"
  using floor_divide_of_int_eq [of "numeral a" "numeral b", where ?'a = rat] by simp

lemmas eval_format = fixed_7_def round_half_even_def Let_def rstrip_def
  floor_rat_numeral str_nat_numeral str_nat_0 str_nat_1 digit_chars_def replicate_numeral
  str_int_def py_int_def

lemma py_cmp_simps [simp]:
  "py_le (PyInt i) (PyInt j) = (i \<le> j)"
  "py_lt (PyInt i) (PyInt j) = (i < j)"
  "py_le (PyFloat (Finite x)) (PyInt j) = (x \<le> of_int j)"
  "py_lt (PyFloat (Finite x)) (PyInt j) = (x < of_int j)"
  "py_le (PyInt i) (PyFloat (Finite y)) = (of_int i \<le> y)"
  "py_lt (PyInt i) (PyFloat (Finite y)) = (of_int i < y)"
  "py_le (PyFloat (Finite x)) (PyFloat (Finite y)) = (x \<le> y)"
  "py_lt (PyFloat (Finite x)) (PyFloat (Finite y)) = (x < y)"
  "py_le (PyFloat NaN) b = False" "py_le a (PyFloat NaN) = False"
  "py_lt (PyFloat NaN) b = False" "py_lt a (PyFloat NaN) = False"
  by (auto simp: py_le_def py_lt_def split: option.splits)

lemma float_overflow_small [simp]: "\<bar>x\<bar> \<le> 10 ^ 300 \<Longrightarrow> \<not> float_overflow x"
proof -
  assume a: "\<bar>x\<bar> \<le> 10 ^ 300"
  have "(10::rat) ^ 300 < 2 ^ 1024 - 2 ^ 970" by simp
  with a show ?thesis by (simp add: float_overflow_def)
qed

subsection \<open>The formatter\<close>

lemma round_half_even_near: "\<bar>of_int (round_half_even y) - y\<bar> \<le> 1 / 2"
proof -
  define f where "f = (of_int \<lfloor>y\<rfloor> :: rat)"
  have "f \<le> y" "y < f + 1" unfolding f_def by linarith+
  then show ?thesis
    unfolding round_half_even_def Let_def f_def [symmetric]
    by (simp add: abs_if f_def [symmetric])
qed

lemma round_7_near: "\<bar>round_7 x - x\<bar> \<le> 1 / 20000000"
proof -
  have "\<bar>of_int (round_half_even (\<bar>x\<bar> * 10000000)) - \<bar>x\<bar> * 10000000\<bar> \<le> 1 / 2"
    by (rule round_half_even_near)
  then show ?thesis by (auto simp: round_7_def abs_if field_simps split: if_splits)
qed

lemma negative_zero_string:
  "rstrip (CHR ''.'') (rstrip (CHR ''0'') ''-0.0000000'') = ''-0''"
  "plain_decimal ''-0''" "decimal_value ''-0'' = 0" "round_7 0 = 0"
  by (simp_all add: rstrip_def plain_decimal_def decimal_value_def is_digit_def digit_chars_def
        nat_of_digits_def digit_value_def round_7_def round_half_even_def)

lemma demo_format:
  "format_number r (PyFloat (Finite (117 / 10000000))) = Some ''0.0000117''"
  by (simp add: format_number_def) (simp add: eval_format)

lemma demo_round_7: "round_7 (117 / 10000000) = 117 / 10000000"
  by (simp add: round_7_def round_half_even_def)

lemma demo_float_simps:
  "demo_float ''1.17e-05'' = Some (Finite (117 / 10000000))" "demo_float ''abc'' = None"
  "demo_float ''Infinity'' = Some PosInf" "demo_float ''nan'' = Some NaN"
  by (simp_all add: demo_float_def)




section \<open>The order request\<close>

lemma demo_client_order_id:
  "str_int (py_int (rnd demo_env (clock demo_env tr * 1000))) = ''1700000000123''"
  by (simp add: demo_env_def py_int_def str_int_def str_nat_numeral str_nat_0 str_nat_1
        digit_chars_def)

text \<open>
  Claim C10. Whatever the side and the order type, \<^verbatim>\<open>place_order\<close> either sends exactly one
  request to the exchange, whose parameters hold a \<^verbatim>\<open>clientOrderId\<close> that is the decimal
  string of \<^verbatim>\<open>int(time.time() * 1000)\<close>, or sends none. It sends none exactly for a limit
  order whose price is missing, zero, not accepted by \<^verbatim>\<open>float\<close> or not positive, and
  then returns a result with code \<open>-1\<close>.
\<close>

theorem place_order_client_order_id:
  "(orderType = ''limit'' \<and>
      (falsy price \<or> (case float_arg (rnd e) (float_of_str e) price of
                          None \<Rightarrow> True | Some p \<Rightarrow> py_le (PyFloat p) (PyInt 0))) \<longrightarrow>
      snd (place_order e acct symbol side orderType quantity price tr) = tr \<and>
      dict_get (fst (place_order e acct symbol side orderType quantity price tr)) ''code'' JNull
        = Some (JNum (PyInt (- 1)))) \<and>
   (\<not> (orderType = ''limit'' \<and>
      (falsy price \<or> (case float_arg (rnd e) (float_of_str e) price of
                          None \<Rightarrow> True | Some p \<Rightarrow> py_le (PyFloat p) (PyInt 0)))) \<longrightarrow>
      (\<exists>ps. snd (place_order e acct symbol side orderType quantity price tr)
               = tr @ [(acct, Spot_place_order ps)] \<and>
            map_of ps ''clientOrderId'' = Some (str_int (py_int (rnd e (clock e tr * 1000)))) \<and>
            map_of ps ''side'' = Some side \<and> map_of ps ''orderType'' = Some orderType))"
  by (auto simp: place_order_def send_order_def api_def error_response_def Let_def
           split: option.splits reply.splits)

theorem place_order_client_order_id_witness:
  "snd (place_order demo_env ''alice'' ''BTCUSDT_SPBL'' ''buy'' ''limit''
          (Some (Num (PyInt 1))) None []) = [] \<and>
   dict_get (fst (place_order demo_env ''alice'' ''BTCUSDT_SPBL'' ''buy'' ''limit''
          (Some (Num (PyInt 1))) None [])) ''code'' JNull = Some (JNum (PyInt (- 1))) \<and>
   (\<exists>ps. snd (place_order demo_env ''alice'' ''BTCUSDT_SPBL'' ''sell'' ''market''
                 (Some (Str ''0.001'')) None []) = [(''alice'', Spot_place_order ps)] \<and>
         map_of ps ''clientOrderId'' = Some ''1700000000123'' \<and>
         map_of ps ''side'' = Some ''sell'' \<and> map_of ps ''orderType'' = Some ''market'')"
proof -
  have a: "''limit'' = ''limit'' \<and>
      (falsy None \<or> (case float_arg (rnd demo_env) (float_of_str demo_env) None of
                    None \<Rightarrow> True | Some p \<Rightarrow> py_le (PyFloat p) (PyInt 0)))"
    by simp
  have b: "\<not> (''market'' = ''limit'' \<and>
      (falsy None \<or> (case float_arg (rnd demo_env) (float_of_str demo_env) None of
                    None \<Rightarrow> True | Some p \<Rightarrow> py_le (PyFloat p) (PyInt 0))))"
    by simp
  note t = place_order_client_order_id [where e = demo_env and acct = "''alice''"
      and symbol = "''BTCUSDT_SPBL''" and price = None and tr = "[]"]
  from t [where orderType = "''limit''" and side = "''buy''" and quantity = "Some (Num (PyInt 1))",
          THEN conjunct1, THEN mp, OF a]
  have 1: "snd (place_order demo_env ''alice'' ''BTCUSDT_SPBL'' ''buy'' ''limit''
          (Some (Num (PyInt 1))) None []) = [] \<and>
   dict_get (fst (place_order demo_env ''alice'' ''BTCUSDT_SPBL'' ''buy'' ''limit''
          (Some (Num (PyInt 1))) None [])) ''code'' JNull = Some (JNum (PyInt (- 1)))" .
  from t [where orderType = "''market''" and side = "''sell''" and quantity = "Some (Str ''0.001'')",
          THEN conjunct2, THEN mp, OF b]
  have 2: "\<exists>ps. snd (place_order demo_env ''alice'' ''BTCUSDT_SPBL'' ''sell'' ''market''
                 (Some (Str ''0.001'')) None []) = [(''alice'', Spot_place_order ps)] \<and>
         map_of ps ''clientOrderId'' = Some ''1700000000123'' \<and>
         map_of ps ''side'' = Some ''sell'' \<and> map_of ps ''orderType'' = Some ''market''"
    by (simp add: demo_client_order_id)
  from 1 2 show ?thesis by blast
qed
section \<open>Traces of the client methods and of the executors\<close>

text \<open>Each client method adds exactly one call to the trace, \<^verbatim>\<open>place_order\<close> apart, which
  adds none for a limit order without a usable price. The lemmas named \<open>_run\<close> write
  each order executor as the sequence of calls it makes.\<close>


lemma get_account_assets_trace [simp]:
  "snd (get_account_assets e a c tr) =
     tr @ [(a, Spot_get_account_assets
                 (case c of None \<Rightarrow> ''SPELL'' | Some c \<Rightarrow> if c \<noteq> [] then c else ''SPELL''))]"
  by (simp add: get_account_assets_def api_def Let_def split: reply.splits option.splits bool.splits)

lemma get_current_price_trace [simp]:
  "snd (get_current_price e a s tr) = tr @ [(a, Spot_get_ticker s)]"
  by (simp add: get_current_price_def api_def split: reply.splits)

lemma get_open_orders_trace [simp]:
  "snd (get_open_orders e a s tr) = tr @ [(a, Spot_get_open_orders s)]"
  by (simp add: get_open_orders_def api_def split: reply.splits option.splits bool.splits)

lemma cancel_order_trace [simp]:
  "snd (cancel_order e a s i tr) = tr @ [(a, Spot_cance_order s i)]"
  by (simp add: cancel_order_def api_def split: reply.splits)

lemma send_order_trace [simp]:
  "snd (send_order e a ps tr) = tr @ [(a, Spot_place_order ps)]"
  by (simp add: send_order_def api_def split: reply.splits)

lemma place_order_market:
  "place_order e a s side ''market'' q p tr =
     send_order e a (order_params e s side ''market'' tr @ [(''quantity'', py_str (str_of_float e) q)]) tr"
  by (simp add: place_order_def order_params_def)

lemma place_order_limit:
  "price_accepted e n \<Longrightarrow> place_order e a s side ''limit'' q (Some (Num n)) tr =
     send_order e a (order_params e s side ''limit'' tr @
        [(''price'', py_str (str_of_float e) (Some (Num n))), (''quantity'', py_str (str_of_float e) q)]) tr"
  by (auto simp: place_order_def order_params_def price_accepted_def split: option.splits)

lemma place_order_limit_rejected:
  "\<not> price_accepted e n \<Longrightarrow>
   snd (place_order e a s side ''limit'' q (Some (Num n)) tr) = tr \<and>
   order_outcome (fst (place_order e a s side ''limit'' q (Some (Num n)) tr)) = JNull"
  by (auto simp: place_order_def price_accepted_def error_response_def order_outcome_def
           split: option.splits)

lemma new_calls_append [simp]: "new_calls tr (tr @ xs) = xs" "new_calls tr tr = []"
  by (simp_all add: new_calls_def)

lemma new_calls_append2 [simp]: "new_calls tr (tr @ xs @ ys) = xs @ ys"
  using new_calls_append(1) [of tr "xs @ ys"] by simp

text \<open>The balance is the int \<open>0\<close> or a float, and the formatter raises on neither; the
  quantity of a sell is a float, whose product with a market price never raises.\<close>

lemma float_of_int_0 [simp]: "float_of_int r 0 = Some (Finite 0)"
  by (simp add: float_of_int_def)

lemma float_of_int_100 [simp]: "float_of_int r 100 = Some (Finite 100)"
  by (simp add: float_of_int_def)

lemma find_available_cases:
  "find_available r pf coin xs = Some a \<Longrightarrow> a = PyInt 0 \<or> (\<exists>x. a = PyFloat x)"
  by (induction xs) (auto split: option.splits if_splits)

lemma balance_read_cases:
  "balance_read e cfg info tr = Some a \<Longrightarrow> a = PyInt 0 \<or> (\<exists>x. a = PyFloat x)"
  by (auto simp: balance_read_def read_balance_def dest: find_available_cases
           split: option.splits bool.splits if_splits)

lemma format_float_not_None [simp]: "format_quantity_for_api r pf (Num (PyFloat x)) \<noteq> None"
  by (simp add: format_number_def)

lemma sell_quantity_float:
  "sell_quantity r (PyFloat a) pct =
     (case py_truediv r pct (PyInt 100) of
        None \<Rightarrow> None
      | Some f \<Rightarrow> Some (PyFloat (float_mul r a f)))"
  by (simp add: sell_quantity_def split: option.splits)

lemma sell_quantity_is_float:
  "sell_quantity r (PyFloat a) pct = Some q \<Longrightarrow> \<exists>x. q = PyFloat x"
  by (auto simp: sell_quantity_float split: option.splits)

lemma py_mul_market_price [simp]:
  "py_mul r (PyFloat x) (case c of None \<Rightarrow> PyInt 0 | Some c \<Rightarrow> PyFloat c) \<noteq> None"
  by (cases c) simp_all

lemma py_mul_float_result:
  "py_mul r (PyFloat x) p = Some v \<Longrightarrow> \<exists>y. v = PyFloat y"
  by (cases p) (auto split: option.splits)

lemma execute_sell_market_run:
  "execute_sell_market e cfg name info ui tr =
     (let tr1 = tr @ [(client info, Spot_get_account_assets (if cfg_coin cfg \<noteq> [] then cfg_coin cfg else ''SPELL''))]
      in case balance_read e cfg info tr of
           None \<Rightarrow> (JNull, tr1)
         | Some available \<Rightarrow>
             if py_le available (PyInt 0) then (JNull, tr1)
             else (case resolve_sell_percentage ui cfg of
                     None \<Rightarrow> (JNull, tr1)
                   | Some pct \<Rightarrow>
                       if py_le pct (PyInt 0) \<or> py_lt (PyInt 100) pct then (JNull, tr1)
                       else (let tr2 = tr1 @ [(client info, Spot_get_ticker (cfg_symbol cfg))]
                             in case sell_quantity (rnd e) available pct of
                                  None \<Rightarrow> (JNull, tr2)
                                | Some q \<Rightarrow>
                                    (case format_sell_quantity (rnd e) (float_of_str e) q of
                                       None \<Rightarrow> (JNull, tr2)
                                     | Some fq \<Rightarrow>
                                         (let ps = order_params e (cfg_symbol cfg) ''sell'' ''market'' tr2 @
                                                   [(''quantity'', py_str (str_of_float e) (Some fq))]
                                          in (order_outcome (fst (send_order e (client info) ps tr2)),
                                              tr2 @ [(client info, Spot_place_order ps)]))))))"
proof (cases "balance_read e cfg info tr")
  case None
  then show ?thesis
    by (simp add: execute_sell_market_def balance_read_def case_prod_beta Let_def)
next
  case (Some available)
  from balance_read_cases [OF Some] consider "available = PyInt 0" | x where "available = PyFloat x"
    by blast
  then show ?thesis
  proof cases
    case 1
    with Some show ?thesis
      by (simp add: execute_sell_market_def balance_read_def case_prod_beta Let_def)
  next
    case 2
    with Some have b: "read_balance (rnd e) (float_of_str e) (cfg_coin cfg)
        (fst (get_account_assets e (client info) (Some (cfg_coin cfg)) tr)) = Some (PyFloat x)"
      by (simp add: balance_read_def)
    show ?thesis
      unfolding execute_sell_market_def
      by (auto simp: Some 2 b case_prod_beta Let_def place_order_market format_number_float
               dest!: sell_quantity_is_float py_mul_float_result split: option.splits)
  qed
qed

lemma execute_sell_limit_run:
  "execute_sell_limit e cfg name info ui tr =
     (let tr1 = tr @ [(client info, Spot_get_account_assets (if cfg_coin cfg \<noteq> [] then cfg_coin cfg else ''SPELL''))]
      in case balance_read e cfg info tr of
           None \<Rightarrow> (JNull, tr1)
         | Some available \<Rightarrow>
             if py_le available (PyInt 0) then (JNull, tr1)
             else (let tr2 = tr1 @ [(client info, Spot_get_ticker (cfg_symbol cfg))];
                       price = resolve_price ui cfg (fst (get_current_price e (client info) (cfg_symbol cfg) tr1))
                   in case resolve_sell_percentage ui cfg of
                        None \<Rightarrow> (JNull, tr2)
                      | Some pct \<Rightarrow>
                          if py_le pct (PyInt 0) \<or> py_lt (PyInt 100) pct \<or> py_le price (PyInt 0)
                          then (JNull, tr2)
                          else (case sell_quantity (rnd e) available pct of
                                  None \<Rightarrow> (JNull, tr2)
                                | Some q \<Rightarrow>
                                    if py_mul (rnd e) q price = None then (JNull, tr2)
                                    else (case format_sell_quantity (rnd e) (float_of_str e) q of
                                            None \<Rightarrow> (JNull, tr2)
                                          | Some fq \<Rightarrow>
                                              if \<not> price_accepted e price then (JNull, tr2)
                                              else (let ps = order_params e (cfg_symbol cfg) ''sell'' ''limit'' tr2 @
                                                        [(''price'', py_str (str_of_float e) (Some (Num price))),
                                                         (''quantity'', py_str (str_of_float e) (Some fq))]
                                                    in (order_outcome (fst (send_order e (client info) ps tr2)),
                                                        tr2 @ [(client info, Spot_place_order ps)]))))))"
proof (cases "balance_read e cfg info tr")
  case None
  then show ?thesis
    by (simp add: execute_sell_limit_def balance_read_def case_prod_beta Let_def)
next
  case (Some available)
  from balance_read_cases [OF Some] consider "available = PyInt 0" | x where "available = PyFloat x"
    by blast
  then show ?thesis
  proof cases
    case 1
    with Some show ?thesis
      by (simp add: execute_sell_limit_def balance_read_def case_prod_beta Let_def)
  next
    case 2
    with Some have b: "read_balance (rnd e) (float_of_str e) (cfg_coin cfg)
        (fst (get_account_assets e (client info) (Some (cfg_coin cfg)) tr)) = Some (PyFloat x)"
      by (simp add: balance_read_def)
    show ?thesis
      unfolding execute_sell_limit_def
      by (auto simp: Some 2 b case_prod_beta Let_def place_order_limit place_order_limit_rejected
                 format_number_float
               dest!: sell_quantity_is_float py_mul_float_result split: option.splits)
  qed
qed

lemma execute_buy_market_run:
  "execute_buy_market e cfg name info ui tr =
     (case resolve_buy_amount ui cfg of
        None \<Rightarrow> (JNull, tr)
      | Some amount \<Rightarrow>
          if py_le amount (PyInt 0) then (JNull, tr)
          else (let ps = order_params e (cfg_symbol cfg) ''buy'' ''market'' tr @
                         [(''quantity'', py_str (str_of_float e) (Some (Num amount)))]
                in (order_outcome (fst (send_order e (client info) ps tr)),
                    tr @ [(client info, Spot_place_order ps)])))"
  by (simp add: execute_buy_market_def case_prod_beta Let_def place_order_market
           split: option.splits)

lemma execute_buy_limit_run:
  "execute_buy_limit e cfg name info ui tr =
     (case resolve_buy_amount ui cfg of
        None \<Rightarrow> (JNull, tr)
      | Some amount \<Rightarrow>
          (let tr1 = (if price_from_market ui cfg then tr @ [(client info, Spot_get_ticker (cfg_symbol cfg))] else tr);
               price = resolve_price ui cfg
                        (if price_from_market ui cfg
                         then fst (get_current_price e (client info) (cfg_symbol cfg) tr) else None)
           in if py_le amount (PyInt 0) \<or> py_le price (PyInt 0) then (JNull, tr1)
              else if format_sell_quantity (rnd e) (float_of_str e) amount = None \<or>
                      format_quantity_for_api (rnd e) (float_of_str e) (Num price) = None
              then (JNull, tr1)
              else (case py_truediv (rnd e) amount price of
                      None \<Rightarrow> (JNull, tr1)
                    | Some estimated \<Rightarrow>
                        if \<not> price_accepted e price then (JNull, tr1)
                        else (let ps = order_params e (cfg_symbol cfg) ''buy'' ''limit'' tr1 @
                                 [(''price'', py_str (str_of_float e) (Some (Num price))),
                                  (''quantity'', py_str (str_of_float e)
                                      (Some (Num (PyFloat estimated))))]
                              in (order_outcome (fst (send_order e (client info) ps tr1)),
                                  tr1 @ [(client info, Spot_place_order ps)])))))"
  by (auto simp: execute_buy_limit_def case_prod_beta Let_def place_order_limit
             place_order_limit_rejected split: option.splits)


lemma py_str_format_sell_quantity:
  "map_option (\<lambda>v. py_str sf (Some v)) (format_sell_quantity r pf q) = quantity_string r pf q"
  by (auto simp: format_sell_quantity_def quantity_string_def split: option.splits)

lemma format_sell_quantity_string:
  "format_sell_quantity r pf q = None \<Longrightarrow> quantity_string r pf q = None"
  "format_sell_quantity r pf q = Some v \<Longrightarrow> quantity_string r pf q = Some (py_str sf (Some v))"
  using py_str_format_sell_quantity [of sf r pf q] by simp_all

lemma map_of_order_params [simp]:
  "map_of (order_params e s side t tr) ''quantity'' = None"
  "map_of (order_params e s side t tr) ''price'' = None"
  by (simp_all add: order_params_def)

lemma sent_quantity_order [simp]:
  "sent_quantity (a, Spot_place_order (order_params e s side t tr @ [(''quantity'', q)])) = Some q"
  "sent_quantity (a, Spot_place_order (order_params e s side t tr @ [(''price'', p), (''quantity'', q)])) = Some q"
  "sent_price (a, Spot_place_order (order_params e s side t tr @ [(''price'', p), (''quantity'', q)])) = Some p"
  by (simp_all add: order_params_def)


section \<open>Evaluation on the concrete exchange\<close>


lemma demo_assets_alice:
  "get_account_assets demo_env ''alice'' (Some ''BTC'') tr =
     (JObj [(''code'', JStr ''00000''),
            (''data'', JArr [JObj [(''coinName'', JStr ''BTC''), (''available'', JStr ''0.002'')]])],
      tr @ [(''alice'', Spot_get_account_assets ''BTC'')])"
  by (simp add: get_account_assets_def api_def demo_env_def demo_exchange_def)

lemma demo_balance_alice:
  "balance_read demo_env (demo_cfg\<lparr>cfg_sell_percentage := p\<rparr>) (demo_info ''alice'' True) tr =
     Some (PyFloat (Finite (2 / 1000)))"
  by (simp add: balance_read_def demo_cfg_def demo_info_def demo_assets_alice read_balance_def)
     (simp add: demo_env_def demo_float_def)

lemma demo_sell_quantity:
  "sell_quantity (rnd demo_env) (PyFloat (Finite (1 / 500))) (PyInt 50) =
     Some (PyFloat (Finite (1 / 1000)))"
  by (simp add: sell_quantity_def demo_env_def make_float_def float_mul_def)

lemma demo_qs1:
  "quantity_string r pf (PyFloat (Finite (1 / 1000))) = Some ''0.001''"
  by (simp add: quantity_string_def format_number_def) (simp add: eval_format)

lemma demo_qs2: "quantity_string r pf (PyFloat (Finite (3 / 2))) = Some ''1''"
  by (simp add: quantity_string_def) (simp add: py_int_def str_int_def str_nat_1 floor_rat_numeral)

lemma demo_str_3_2: "demo_str (3 / 2) = ''1.5''"
  by (simp add: demo_str_def floor_rat_numeral) (simp add: eval_format)

section \<open>The quantity an order carries\<close>

text \<open>The quantities of the orders that each executor sends, as a list.\<close>

lemma sell_market_sent:
  "map sent_quantity (filter is_place_order
       (new_calls tr (snd (execute_sell_market e cfg name info ui tr)))) =
     (case (balance_read e cfg info tr, resolve_sell_percentage ui cfg) of
        (Some available, Some pct) \<Rightarrow>
          if \<not> py_le available (PyInt 0) \<and> \<not> py_le pct (PyInt 0) \<and> \<not> py_lt (PyInt 100) pct
          then (case sell_quantity (rnd e) available pct of
                  None \<Rightarrow> []
                | Some q \<Rightarrow>
                    (case quantity_string (rnd e) (float_of_str e) q of
                       None \<Rightarrow> []
                     | Some s \<Rightarrow> [Some s]))
          else []
      | _ \<Rightarrow> [])"
  by (auto simp: execute_sell_market_run Let_def simp del: sent_quantity.simps
           dest: format_sell_quantity_string(1)
                 format_sell_quantity_string(2) [where sf = "str_of_float e"]
           split: option.splits)

lemma sell_limit_sent:
  "map sent_quantity (filter is_place_order
       (new_calls tr (snd (execute_sell_limit e cfg name info ui tr)))) =
     (case (balance_read e cfg info tr, resolve_sell_percentage ui cfg) of
        (Some available, Some pct) \<Rightarrow>
          if \<not> py_le available (PyInt 0) \<and> \<not> py_le pct (PyInt 0) \<and> \<not> py_lt (PyInt 100) pct \<and>
             \<not> py_le (sell_limit_price e cfg info ui tr) (PyInt 0)
          then (case sell_quantity (rnd e) available pct of
                  None \<Rightarrow> []
                | Some q \<Rightarrow>
                    if py_mul (rnd e) q (sell_limit_price e cfg info ui tr) = None \<or>
                       \<not> price_accepted e (sell_limit_price e cfg info ui tr)
                    then []
                    else (case quantity_string (rnd e) (float_of_str e) q of
                            None \<Rightarrow> []
                          | Some s \<Rightarrow> [Some s]))
          else []
      | _ \<Rightarrow> [])"
  by (auto simp: execute_sell_limit_run sell_limit_price_def Let_def
           simp del: sent_quantity.simps
           dest: format_sell_quantity_string(1)
                 format_sell_quantity_string(2) [where sf = "str_of_float e"]
           split: option.splits)

lemma buy_market_sent:
  "map sent_quantity (filter is_place_order
       (new_calls tr (snd (execute_buy_market e cfg name info ui tr)))) =
     (case resolve_buy_amount ui cfg of
        Some amount \<Rightarrow>
          if \<not> py_le amount (PyInt 0)
          then [Some (py_str (str_of_float e) (Some (Num amount)))] else []
      | None \<Rightarrow> [])"
  by (auto simp: execute_buy_market_run Let_def simp del: sent_quantity.simps split: option.splits)





section \<open>Sell sizing\<close>

lemma py_lt_not_le: "py_lt a b \<Longrightarrow> \<not> py_le b a" "py_le a b \<Longrightarrow> \<not> py_lt b a"
  by (auto simp: py_lt_def py_le_def split: option.splits)

lemma percentage_cases:
  assumes "py_lt (PyInt 0) pct" "py_le pct (PyInt 100)"
  obtains i where "pct = PyInt i" "0 < i" "i \<le> 100"
        | p where "pct = PyFloat (Finite p)" "0 < p" "p \<le> 100"
proof (cases pct)
  case (PyInt i)
  with assms that(1) show ?thesis by simp
next
  case (PyFloat x)
  with assms that(2) show ?thesis
    by (cases x) (auto simp: py_lt_def py_le_def)
qed

lemma fraction_of_percentage:
  assumes "mono r" "r 0 = 0" "r 1 = 1" "py_lt (PyInt 0) pct" "py_le pct (PyInt 100)"
  shows "py_truediv r pct (PyInt 100) = Some (Finite (r (exact_value pct / 100))) \<and>
         0 \<le> r (exact_value pct / 100) \<and> r (exact_value pct / 100) \<le> 1"
proof -
  have v: "0 < exact_value pct" "exact_value pct \<le> 100"
    using assms(4,5) by (auto elim!: percentage_cases)
  then have "0 \<le> exact_value pct / 100" "exact_value pct / 100 \<le> 1" by simp_all
  then have b: "0 \<le> r (exact_value pct / 100)" "r (exact_value pct / 100) \<le> 1"
    using assms(1,2,3) monoD [OF assms(1)] by metis+
  have no: "\<not> float_overflow (exact_value pct / 100)"
    using v by (intro float_overflow_small) (simp add: abs_if)
  from assms(4,5) have "py_truediv r pct (PyInt 100) = Some (Finite (r (exact_value pct / 100)))"
  proof (cases rule: percentage_cases)
    case (1 i)
    with no show ?thesis by (simp add: make_float_def)
  next
    case (2 p)
    with no show ?thesis by (simp add: float_div_def make_float_def)
  qed
  with b show ?thesis by simp
qed

text \<open>The float product \<^verbatim>\<open>available_balance * (sell_percentage / 100)\<close> never exceeds the
  balance, under a rounding that is monotone and leaves \<open>0\<close>, \<open>1\<close> and the balance, which
  is a float, as they are.\<close>

lemma sell_quantity_bounded:
  assumes "mono r" "r 0 = 0" "r 1 = 1"
    and "py_le (PyInt 0) available"
    and "\<And>a. available = PyFloat (Finite a) \<Longrightarrow> r a = a \<and> \<not> float_overflow a"
    and "py_lt (PyInt 0) pct" "py_le pct (PyInt 100)"
    and "available = PyInt 0 \<or> (\<exists>x. available = PyFloat x)"
  shows "\<exists>q. sell_quantity r available pct = Some (PyFloat q) \<and>
              \<not> py_lt available (PyFloat q) \<and>
              (case available of
                 PyFloat (Finite a) \<Rightarrow> q = Finite (r (a * r (exact_value pct / 100)))
               | _ \<Rightarrow> True)"
proof -
  define f where "f = r (exact_value pct / 100)"
  have fr: "py_truediv r pct (PyInt 100) = Some (Finite f)" and f: "0 \<le> f" "f \<le> 1"
    using fraction_of_percentage [OF assms(1,2,3,6,7)] by (simp_all add: f_def)
  from assms(8) show ?thesis
  proof
    assume "available = PyInt 0"
    then show ?thesis
      using assms(2) f by (simp add: sell_quantity_def fr float_mul_def make_float_def)
  next
    assume "\<exists>x. available = PyFloat x"
    then obtain x where x: "available = PyFloat x" by blast
    show ?thesis
    proof (cases x)
      case (Finite a)
      with assms(4) x have a: "0 \<le> a" by simp
      from assms(5) x Finite have ra: "r a = a" and no: "\<not> float_overflow a" by simp_all
      have le: "a * f \<le> a" using a f by (simp add: mult_left_le)
      have "0 \<le> a * f" using a f by simp
      then have "\<bar>a * f\<bar> \<le> \<bar>a\<bar>" using a le by simp
      with no have no2: "\<not> float_overflow (a * f)" by (auto simp: float_overflow_def)
      have "r (a * f) \<le> r a" using le assms(1) by (rule monoD [rotated])
      then have rl: "r (a * f) \<le> a" by (simp add: ra)
      have neg: "\<not> a < 0" "\<not> f < 0" using a f by simp_all
      show ?thesis
        using rl neg no2
        by (simp add: x Finite sell_quantity_def fr float_mul_def make_float_def f_def [symmetric])
    next
      case NegZero
      then show ?thesis
        using f assms(2)
        by (simp add: x sell_quantity_def fr float_mul_def make_float_def py_lt_def)
    next
      case PosInf
      then show ?thesis
        using f by (simp add: x sell_quantity_def fr float_mul_def py_lt_def)
    next
      case NegInf
      with assms(4) x show ?thesis by (simp add: py_le_def)
    next
      case NaN
      with assms(4) x show ?thesis by simp
    qed
  qed
qed



section \<open>The batch loop\<close>

text \<open>The result map of a loop that returns has a key for each account it was given. As
  long as the messages of the handler print, every account gets what its executor
  yields at the trace that the accounts before it have left, \<open>None\<close> when it raises.\<close>


lemma run_accounts_keys:
  "fst (run_accounts e ex accounts results tr) = Returned rs \<Longrightarrow>
   fst ` set rs = fst ` set results \<union> fst ` set accounts"
proof (induction accounts arbitrary: results tr)
  case Nil
  then show ?case by simp
next
  case (Cons p accounts)
  obtain name info where p: "p = (name, info)" by (cases p)
  obtain r t where ex: "ex name info tr = (r, t)" by (cases "ex name info tr")
  show ?case
  proof (cases r)
    case (Returns x)
    with Cons.prems have "fst (run_accounts e ex accounts (AList.update name x results) t) = Returned rs"
      by (simp add: p ex)
    from Cons.IH [OF this] show ?thesis by (auto simp: p dom_update)
  next
    case (Raises m)
    with Cons.prems have "fst (run_accounts e ex accounts (AList.update name JNull results) t) = Returned rs"
      by (simp add: p ex split: option.splits)
    from Cons.IH [OF this] show ?thesis by (auto simp: p dom_update)
  qed
qed

lemma run_accounts_untouched:
  "fst (run_accounts e ex accounts results tr) = Returned rs \<Longrightarrow> a \<notin> fst ` set accounts \<Longrightarrow>
   map_of rs a = map_of results a"
proof (induction accounts arbitrary: results tr)
  case Nil
  then show ?case by simp
next
  case (Cons p accounts)
  obtain name info where p: "p = (name, info)" by (cases p)
  obtain r t where ex: "ex name info tr = (r, t)" by (cases "ex name info tr")
  from Cons.prems(2) have n: "a \<noteq> name" "a \<notin> fst ` set accounts" by (auto simp: p)
  show ?case
  proof (cases r)
    case (Returns x)
    with Cons.prems(1) have "fst (run_accounts e ex accounts (AList.update name x results) t) = Returned rs"
      by (simp add: p ex)
    from Cons.IH [OF this n(2)] n(1) show ?thesis by (simp add: update_conv')
  next
    case (Raises m)
    with Cons.prems(1) have "fst (run_accounts e ex accounts (AList.update name JNull results) t) = Returned rs"
      by (simp add: p ex split: option.splits)
    from Cons.IH [OF this n(2)] n(1) show ?thesis by (simp add: update_conv')
  qed
qed

lemma run_accounts_returns:
  assumes "\<And>n m. rprint e (handler_message n m) = None"
  shows "\<exists>rs. fst (run_accounts e ex accounts results tr) = Returned rs"
proof (induction accounts arbitrary: results tr)
  case Nil
  then show ?case by simp
next
  case (Cons p accounts)
  obtain name info where p: "p = (name, info)" by (cases p)
  obtain r t where ex: "ex name info tr = (r, t)" by (cases "ex name info tr")
  show ?case
    by (cases r) (simp_all add: p ex assms Cons.IH)
qed

lemma run_accounts_append:
  assumes "\<And>n m. rprint e (handler_message n m) = None"
  shows "fst (run_accounts e ex before results tr) = Returned rs1 \<Longrightarrow>
         run_accounts e ex (before @ rest) results tr =
           run_accounts e ex rest rs1 (snd (run_accounts e ex before results tr))"
proof (induction before arbitrary: results tr)
  case Nil
  then show ?case by simp
next
  case (Cons p before)
  obtain name info where p: "p = (name, info)" by (cases p)
  obtain r t where ex: "ex name info tr = (r, t)" by (cases "ex name info tr")
  show ?case
  proof (cases r)
    case (Returns x)
    with Cons.prems have "fst (run_accounts e ex before (AList.update name x results) t) = Returned rs1"
      by (simp add: p ex)
    from Cons.IH [OF this] show ?thesis by (simp add: p ex Returns)
  next
    case (Raises m)
    with Cons.prems have "fst (run_accounts e ex before (AList.update name JNull results) t) = Returned rs1"
      by (simp add: p ex assms)
    from Cons.IH [OF this] show ?thesis by (simp add: p ex Raises assms)
  qed
qed

text \<open>The value that the loop stores for an account.\<close>

lemma run_accounts_entry:
  assumes printable: "\<And>n m. rprint e (handler_message n m) = None"
    and d: "distinct (map fst accounts)"
    and split: "accounts = before @ (a, ia) # rest"
  shows "\<exists>rs. fst (run_accounts e ex accounts results tr) = Returned rs \<and>
          map_of rs a =
            Some (case fst (ex a ia (snd (run_accounts e ex before results tr))) of
                    Raises m \<Rightarrow> JNull
                  | Returns r \<Rightarrow> r)"
proof -
  obtain rs1 where rs1: "fst (run_accounts e ex before results tr) = Returned rs1"
    using run_accounts_returns [of e ex before results tr] printable by blast
  let ?t = "snd (run_accounts e ex before results tr)"
  have step: "run_accounts e ex accounts results tr = run_accounts e ex ((a, ia) # rest) rs1 ?t"
    unfolding split using printable rs1 by (rule run_accounts_append)
  obtain r t where ex: "ex a ia ?t = (r, t)" by (cases "ex a ia ?t")
  let ?v = "case r of Raises m \<Rightarrow> JNull | Returns r \<Rightarrow> r"
  have step2: "run_accounts e ex ((a, ia) # rest) rs1 ?t =
               run_accounts e ex rest (AList.update a ?v rs1) t"
    by (cases r) (simp_all add: ex printable)
  obtain rs where rs: "fst (run_accounts e ex rest (AList.update a ?v rs1) t) = Returned rs"
    using run_accounts_returns [of e ex rest "AList.update a ?v rs1" t] printable by blast
  have "a \<notin> fst ` set rest" using d unfolding split by auto
  with rs have "map_of rs a = map_of (AList.update a ?v rs1) a"
    by (rule run_accounts_untouched)
  then have "map_of rs a = Some ?v" by (simp add: update_conv')
  with rs show ?thesis unfolding step step2 by (simp add: ex)
qed

lemma script_executor_returns:
  "\<exists>r. fst (script_executor e cfg action ui name info tr) = Returns r"
  by (simp add: script_executor_def case_prod_beta)

lemma trade_keys_subset:
  assumes "fst (trade_all_accounts_with ex e cfg clients action tr) = Returned rs"
  shows "fst ` set rs \<subseteq> fst ` set (filter (\<lambda>(name, info). active info) clients)"
proof (cases "filter (\<lambda>(name, info). active info) clients = []")
  case True
  with assms show ?thesis by (simp add: trade_all_accounts_with_def)
next
  case False
  let ?act = "filter (\<lambda>(name, info). active info) clients"
  obtain g tr1 where g: "gather_inputs e cfg action ?act tr = (g, tr1)"
    by (cases "gather_inputs e cfg action ?act tr")
  show ?thesis
  proof (cases g)
    case (Raised m)
    with assms False g show ?thesis by (simp add: trade_all_accounts_with_def)
  next
    case (Returned u)
    show ?thesis
    proof (cases u)
      case None
      with assms False g Returned show ?thesis by (simp add: trade_all_accounts_with_def)
    next
      case (Some ui)
      with assms False g Returned
      have "fst (run_accounts e (ex ui) ?act [] tr1) = Returned rs"
        by (simp add: trade_all_accounts_with_def)
      from run_accounts_keys [OF this] show ?thesis by simp
    qed
  qed
qed

lemma trade_keys_active:
  assumes "fst (trade_all_accounts_with ex e cfg clients action tr) = Returned rs"
    and "name \<in> fst ` set rs"
  shows "\<exists>info. (name, info) \<in> set clients \<and> active info"
proof -
  from assms trade_keys_subset [of ex e cfg clients action tr rs]
  have "name \<in> fst ` set (filter (\<lambda>(name, info). active info) clients)" by blast
  then obtain p where "p \<in> set clients" "active (snd p)" "name = fst p"
    by (auto simp: case_prod_beta)
  then have "(name, snd p) \<in> set clients \<and> active (snd p)" by simp
  then show ?thesis by blast
qed


lemma demo_info_simps [simp]:
  "client (demo_info name a) = name" "active (demo_info name a) = a"
  by (simp_all add: demo_info_def)

lemma demo_buy_market_alice:
  "execute_buy_market demo_env (demo_cfg\<lparr>cfg_buy_amount := Some (PyInt 50)\<rparr>) name
     (demo_info ''alice'' True) no_inputs tr =
   (JStr ''1001'',
    tr @ [(''alice'', Spot_place_order
            [(''symbol'', ''BTCUSDT_SPBL''), (''side'', ''buy''), (''orderType'', ''market''),
             (''force'', ''gtc''), (''clientOrderId'', ''1700000000123''), (''quantity'', ''50'')])])"
proof -
  have s: "str_int 50 = ''50''"
    by (simp add: str_int_def str_nat_numeral str_nat_0 digit_chars_def)
  show ?thesis
    by (simp add: execute_buy_market_run resolve_buy_amount_def no_inputs_def Let_def
          order_params_def demo_client_order_id s)
       (simp add: demo_cfg_def send_order_def api_def demo_env_def demo_exchange_def
          order_outcome_def)
qed

lemma demo_batch_buy_market:
  "trade_all_accounts demo_env (demo_cfg\<lparr>cfg_buy_amount := Some (PyInt 50)\<rparr>)
     [(''alice'', demo_info ''alice'' True), (''zed'', demo_info ''zed'' False)] ''buy_market'' [] =
   (Returned [(''alice'', JStr ''1001'')],
    [(''alice'', Spot_place_order
            [(''symbol'', ''BTCUSDT_SPBL''), (''side'', ''buy''), (''orderType'', ''market''),
             (''force'', ''gtc''), (''clientOrderId'', ''1700000000123''), (''quantity'', ''50'')])])"
  by (simp add: trade_all_accounts_def trade_all_accounts_with_def gather_inputs_def
        script_executor_def execute_action_def demo_buy_market_alice)

text \<open>
  Claim C5. Every key of the result map that a batch returns is the name of a client
  whose \<^verbatim>\<open>active\<close> flag is set, for the script's executors and for any other; with
  distinct client names, as the keys of \<^verbatim>\<open>self.clients\<close> are, a client that is not active
  has no key in the result.
\<close>

theorem inactive_accounts_excluded:
  "(\<forall>rs. fst (trade_all_accounts_with ex e cfg clients action tr) = Returned rs \<longrightarrow>
      (\<forall>name \<in> fst ` set rs. \<exists>info. (name, info) \<in> set clients \<and> active info)) \<and>
   (\<forall>rs. fst (trade_all_accounts e cfg clients action tr) = Returned rs \<longrightarrow>
      (\<forall>name \<in> fst ` set rs. \<exists>info. (name, info) \<in> set clients \<and> active info)) \<and>
   (distinct (map fst clients) \<longrightarrow>
      (\<forall>rs. fst (trade_all_accounts e cfg clients action tr) = Returned rs \<longrightarrow>
         (\<forall>p \<in> set clients. \<not> active (snd p) \<longrightarrow> fst p \<notin> fst ` set rs)))"
proof (intro conjI ballI impI allI)
  fix rs name
  assume "fst (trade_all_accounts_with ex e cfg clients action tr) = Returned rs"
    and "name \<in> fst ` set rs"
  then show "\<exists>info. (name, info) \<in> set clients \<and> active info" by (rule trade_keys_active)
next
  fix rs name
  assume "fst (trade_all_accounts e cfg clients action tr) = Returned rs"
    and "name \<in> fst ` set rs"
  then show "\<exists>info. (name, info) \<in> set clients \<and> active info"
    unfolding trade_all_accounts_def by (rule trade_keys_active)
next
  fix rs p
  assume d: "distinct (map fst clients)" and p: "p \<in> set clients" and na: "\<not> active (snd p)"
    and rs: "fst (trade_all_accounts e cfg clients action tr) = Returned rs"
  show "fst p \<notin> fst ` set rs"
  proof
    assume "fst p \<in> fst ` set rs"
    with rs obtain info where i: "(fst p, info) \<in> set clients" "active info"
      unfolding trade_all_accounts_def using trade_keys_active by blast
    from p have "(fst p, snd p) \<in> set clients" by simp
    with d i(1) have "info = snd p" by (rule eq_key_imp_eq_value)
    with i(2) na show False by simp
  qed
qed


theorem inactive_accounts_excluded_witness:
  "''zed'' \<notin> fst ` set [(''alice'', JStr ''1001'')] \<and>
   fst (trade_all_accounts demo_env (demo_cfg\<lparr>cfg_buy_amount := Some (PyInt 50)\<rparr>)
       [(''alice'', demo_info ''alice'' True), (''zed'', demo_info ''zed'' False)] ''buy_market'' []) =
     Returned [(''alice'', JStr ''1001'')]"
proof -
  let ?clients = "[(''alice'', demo_info ''alice'' True), (''zed'', demo_info ''zed'' False)]"
  have d: "distinct (map fst ?clients)" by simp
  have p: "(''zed'', demo_info ''zed'' False) \<in> set ?clients" by simp
  have n: "\<not> active (snd (''zed'', demo_info ''zed'' False))" by simp
  have r: "fst (trade_all_accounts demo_env (demo_cfg\<lparr>cfg_buy_amount := Some (PyInt 50)\<rparr>)
             ?clients ''buy_market'' []) = Returned [(''alice'', JStr ''1001'')]"
    by (simp add: demo_batch_buy_market)
  from inactive_accounts_excluded
         [where clients = ?clients and e = demo_env
            and cfg = "demo_cfg\<lparr>cfg_buy_amount := Some (PyInt 50)\<rparr>"
            and action = "''buy_market''" and tr = "[]",
          THEN conjunct2, THEN conjunct2, THEN mp, OF d, THEN spec, THEN mp, OF r,
          THEN bspec, OF p, THEN mp, OF n]
  have "fst (''zed'', demo_info ''zed'' False) \<notin> fst ` set [(''alice'', JStr ''1001'')]" .
  with r show ?thesis by simp
qed


text \<open>
  Claim C4. In a batch that gets past its prompts, let \<open>a\<close> come before \<open>b\<close> among the
  active accounts, and let the messages of the handler print. If executing the action for
  \<open>a\<close> raises, the result map holds \<open>None\<close> for \<open>a\<close>, and \<open>b\<close> is executed all the same: it
  has the entry that its executor yields at the trace left by the accounts before it.
\<close>

lemma batch_isolation:
  assumes "distinct (map fst clients)"
    and "filter (\<lambda>(name, info). active info) clients = before @ (a, ia) # between @ (b, ib) # rest"
    and "gather_inputs e cfg action (filter (\<lambda>(name, info). active info) clients) tr =
           (Returned (Some ui), tr1)"
    and "\<And>n m. rprint e (handler_message n m) = None"
    and "fst (ex ui a ia (snd (run_accounts e (ex ui) before [] tr1))) = Raises m"
  shows "\<exists>rs. fst (trade_all_accounts_with ex e cfg clients action tr) = Returned rs \<and>
           map_of rs a = Some JNull \<and>
           map_of rs b =
             Some (case fst (ex ui b ib
                               (snd (run_accounts e (ex ui) (before @ (a, ia) # between) [] tr1))) of
                     Raises m \<Rightarrow> JNull
                   | Returns r \<Rightarrow> r)"
proof -
  let ?act = "filter (\<lambda>(name, info). active info) clients"
  have ne: "?act \<noteq> []" using assms(2) by simp
  have run: "trade_all_accounts_with ex e cfg clients action tr = run_accounts e (ex ui) ?act [] tr1"
    using ne assms(3) by (simp add: trade_all_accounts_with_def Let_def)
  have d: "distinct (map fst ?act)" using assms(1) by (rule distinct_map_filter)
  have sb: "?act = (before @ (a, ia) # between) @ (b, ib) # rest" using assms(2) by simp
  from run_accounts_entry [OF assms(4) d assms(2), of "ex ui" "[]" tr1]
  obtain rs where rs: "fst (run_accounts e (ex ui) ?act [] tr1) = Returned rs"
    and a: "map_of rs a = Some JNull"
    by (auto simp: assms(5))
  from run_accounts_entry [OF assms(4) d sb, of "ex ui" "[]" tr1] rs
  have "map_of rs b =
          Some (case fst (ex ui b ib
                            (snd (run_accounts e (ex ui) (before @ (a, ia) # between) [] tr1))) of
                  Raises m \<Rightarrow> JNull
                | Returns r \<Rightarrow> r)"
    by auto
  with rs a show ?thesis unfolding run by blast
qed

lemma demo_gather_cancel:
  "gather_inputs e cfg ''cancel_buy_limits'' accounts tr = (Returned (Some no_inputs), tr)"
  by (simp add: gather_inputs_def)

text \<open>
  The claim as it was stated fails when the message of the handler does not print. The
  handler passes the text of the exception to \<^verbatim>\<open>rprint\<close> before it stores \<open>None\<close>; a
  text with a closing tag that closes nothing makes \<^verbatim>\<open>rprint\<close> raise inside the
  handler, and the batch ends with that exception: \<open>carol\<close> has no entry and \<open>alice\<close>,
  who comes after her, is never executed. With a plain text the loop goes on.
\<close>

theorem handler_message_aborts_batch:
  "trade_all_accounts_with demo_faulty_executor demo_env demo_cfg
     [(''carol'', demo_info ''carol'' True), (''alice'', demo_info ''alice'' True)]
     ''cancel_buy_limits'' [] =
     (Raised ''closing tag [/x] does not match any open tag'', []) \<and>
   trade_all_accounts_with demo_plain_executor demo_env demo_cfg
     [(''carol'', demo_info ''carol'' True), (''alice'', demo_info ''alice'' True)]
     ''cancel_buy_limits'' [] =
     (Returned [(''carol'', JNull), (''alice'', JBool True)], [])"
proof -
  have 1: "rprint demo_env (handler_message ''carol'' ''bad reply [/x]'') =
             Some ''closing tag [/x] does not match any open tag''"
    by (simp add: demo_env_def demo_rprint_def handler_message_def)
  have 2: "rprint demo_env (handler_message ''carol'' ''timeout'') = None"
    by (simp add: demo_env_def demo_rprint_def handler_message_def)
  show ?thesis
    by (simp add: trade_all_accounts_with_def demo_gather_cancel demo_faulty_executor_def
          demo_plain_executor_def 1 2)
qed


section \<open>A sell without balance\<close>


lemma balance_query_run: 
  "tr @ [(client info, Spot_get_account_assets (if cfg_coin cfg \<noteq> [] then cfg_coin cfg else ''SPELL''))]
    = tr @ [balance_query cfg info]"
  by (simp add: balance_query_def)

lemma unsuccessful_entry_counted:
  "(name, r) \<in> set results \<Longrightarrow> \<not> truthy r \<Longrightarrow> success_count results < total_count results"
  unfolding success_count_def total_count_def
  using length_filter_less [of r "map snd results" truthy] by force

lemma demo_assets_bob:
  "get_account_assets demo_env ''bob'' (Some ''BTC'') tr =
     (JObj [(''code'', JStr ''00000''),
            (''data'', JArr [JObj [(''coinName'', JStr ''BTC''), (''available'', JStr ''0'')]])],
      tr @ [(''bob'', Spot_get_account_assets ''BTC'')])"
  by (simp add: get_account_assets_def api_def demo_env_def demo_exchange_def)

lemma demo_balance_bob:
  "balance_read demo_env (demo_cfg\<lparr>cfg_sell_percentage := p\<rparr>) (demo_info ''bob'' True) tr =
     Some (PyFloat (Finite 0))"
  by (simp add: balance_read_def demo_cfg_def demo_assets_bob read_balance_def)
     (simp add: demo_env_def demo_float_def)

lemma demo_assets_carol:
  "get_account_assets demo_env ''carol'' (Some ''BTC'') tr =
     (error_response ''timeout'', tr @ [(''carol'', Spot_get_account_assets ''BTC'')])"
  by (simp add: get_account_assets_def api_def demo_env_def demo_exchange_def)

lemma demo_balance_carol:
  "balance_read demo_env (demo_cfg\<lparr>cfg_sell_percentage := p\<rparr>) (demo_info ''carol'' True) tr = None"
  by (simp add: balance_read_def demo_cfg_def demo_assets_carol read_balance_def error_response_def)


text \<open>
  Claim C8, as amended. A market sell or limit sell on an account whose available balance
  is \<^verbatim>\<open><= 0\<close> makes the balance query and nothing else, and its outcome is
  \<open>None\<close>, the value that a failure gives as well; the summary counts a result map
  that holds this outcome as not fully successful.
\<close>

theorem no_balance_outcome:
  assumes "balance_read e cfg info tr = Some available" and "py_le available (PyInt 0)"
  shows "execute_sell_market e cfg name info ui tr = (JNull, tr @ [balance_query cfg info]) \<and>
         execute_sell_limit e cfg name info ui tr = (JNull, tr @ [balance_query cfg info]) \<and>
         (\<forall>results. (name, JNull) \<in> set results \<longrightarrow> success_count results < total_count results)"
  using assms
  by (auto simp: execute_sell_market_run execute_sell_limit_run Let_def balance_query_def
           intro: unsuccessful_entry_counted)

theorem no_balance_outcome_witness:
  "execute_sell_market demo_env (demo_cfg\<lparr>cfg_sell_percentage := Some (PyInt 50)\<rparr>) ''bob''
     (demo_info ''bob'' True) no_inputs [] = (JNull, [(''bob'', Spot_get_account_assets ''BTC'')]) \<and>
   execute_sell_limit demo_env (demo_cfg\<lparr>cfg_sell_percentage := Some (PyInt 50)\<rparr>) ''bob''
     (demo_info ''bob'' True) no_inputs [] = (JNull, [(''bob'', Spot_get_account_assets ''BTC'')]) \<and>
   success_count [(''bob'', JNull)] < total_count [(''bob'', JNull)]"
proof -
  have z: "py_le (PyFloat (Finite 0)) (PyInt 0)" by simp
  have q: "balance_query (demo_cfg\<lparr>cfg_sell_percentage := Some (PyInt 50)\<rparr>) (demo_info ''bob'' True)
           = (''bob'', Spot_get_account_assets ''BTC'')"
    by (simp add: balance_query_def demo_cfg_def)
  have b: "balance_read demo_env (demo_cfg\<lparr>cfg_sell_percentage := Some (PyInt 50)\<rparr>)
             (demo_info ''bob'' True) [] = Some (PyFloat (Finite 0))"
    by (rule demo_balance_bob)
  from no_balance_outcome [OF b z, where name = "''bob''" and ui = no_inputs]
  show ?thesis by (simp add: q)
qed


text \<open>
  Claim C8 as it was stated fails: the outcome for a balance of zero (\<open>bob\<close>) is the
  outcome for a balance query that failed (\<open>carol\<close>), and the summary of a batch over
  \<open>bob\<close> alone reports no success out of one operation.
\<close>

theorem no_balance_is_failure_counterexample:
  "balance_read demo_env (demo_cfg\<lparr>cfg_sell_percentage := Some (PyInt 50)\<rparr>)
     (demo_info ''bob'' True) [] = Some (PyFloat (Finite 0)) \<and>
   balance_read demo_env (demo_cfg\<lparr>cfg_sell_percentage := Some (PyInt 50)\<rparr>)
     (demo_info ''carol'' True) [] = None \<and>
   fst (execute_sell_market demo_env (demo_cfg\<lparr>cfg_sell_percentage := Some (PyInt 50)\<rparr>) ''bob''
     (demo_info ''bob'' True) no_inputs []) = JNull \<and>
   fst (execute_sell_market demo_env (demo_cfg\<lparr>cfg_sell_percentage := Some (PyInt 50)\<rparr>) ''carol''
     (demo_info ''carol'' True) no_inputs []) = JNull \<and>
   fst (trade_all_accounts demo_env (demo_cfg\<lparr>cfg_sell_percentage := Some (PyInt 50)\<rparr>)
          [(''bob'', demo_info ''bob'' True)] ''sell_market'' []) =
     Returned [(''bob'', JNull)] \<and>
   success_count [(''bob'', JNull)] = 0 \<and> total_count [(''bob'', JNull)] = 1"
  by (simp add: demo_balance_bob demo_balance_carol execute_sell_market_run Let_def
        trade_all_accounts_def trade_all_accounts_with_def gather_inputs_def
        script_executor_def execute_action_def success_count_def total_count_def)


section \<open>Cancelling limit orders\<close>

text \<open>When every order of the listing is a JSON object and the exchange answers cancel
  requests with JSON objects, the list comprehension is a filter and the loop makes one
  cancel call for each matching order, whatever the earlier cancellations returned.\<close>


lemma is_dict_get: "is_dict v \<Longrightarrow> dict_get v k d \<noteq> None"
  by (cases v) simp_all

lemma filter_limit_orders_dicts:
  "list_all is_dict orders \<Longrightarrow>
   filter_limit_orders side orders = Some (filter (order_matches side) orders)"
proof (induction orders)
  case Nil
  then show ?case by simp
next
  case (Cons order orders)
  then obtain d where "order = JObj d" by (cases order) auto
  with Cons show ?case by (auto simp: order_matches_def split: option.splits)
qed

lemma cancel_order_dict:
  "cancel_replies_are_dicts e \<Longrightarrow> is_dict (fst (cancel_order e a s i tr))"
  by (auto simp: cancel_replies_are_dicts_def cancel_order_def api_def error_response_def
           split: reply.splits)

lemma cancel_succeeded_0:
  "cancel_succeeded e a s tr (order # orders) 0 =
     (dict_get (fst (cancel_order e a s
        (case dict_get order ''orderId'' JNull of None \<Rightarrow> JNull | Some i \<Rightarrow> i) tr))
        ''code'' JNull = Some (JStr ''00000''))"
  by (simp add: cancel_succeeded_def)

lemma cancel_succeeded_Suc:
  "cancel_succeeded e a s tr (order # orders) (Suc i) =
     cancel_succeeded e a s (tr @ [cancel_call a s order]) orders i"
  by (simp add: cancel_succeeded_def)

lemma count_upt_Suc:
  "length (filter P [0..<Suc n]) = (if P 0 then 1 else 0) + length (filter (\<lambda>i. P (Suc i)) [0..<n])"
proof -
  have "[0..<Suc n] = 0 # map Suc [0..<n]"
    by (simp add: upt_conv_Cons map_Suc_upt del: upt_Suc)
  then show ?thesis by (simp add: filter_map o_def del: upt_Suc)
qed

lemma cancel_each_counts:
  assumes "cancel_replies_are_dicts e" and "list_all is_dict orders"
  shows "cancel_each e a s orders c f tr =
     (Some (c + length (filter (cancel_succeeded e a s tr orders) [0..<length orders]),
            f + length (filter (\<lambda>i. \<not> cancel_succeeded e a s tr orders i) [0..<length orders])),
      tr @ map (cancel_call a s) orders)"
  using assms(2)
proof (induction orders arbitrary: c f tr)
  case Nil
  then show ?case by simp
next
  case (Cons order orders)
  then obtain d where d: "order = JObj d" by (cases order) auto
  obtain oid where oid: "dict_get order ''orderId'' JNull = Some oid" by (simp add: d)
  let ?tr = "tr @ [cancel_call a s order]"
  let ?P = "cancel_succeeded e a s tr (order # orders)"
  let ?Q = "cancel_succeeded e a s ?tr orders"
  let ?n = "length orders"
  obtain r where r: "cancel_order e a s oid tr = (r, ?tr)"
    using cancel_order_trace [of e a s oid tr]
    by (cases "cancel_order e a s oid tr") (simp add: cancel_call_def oid)
  have "is_dict r" using cancel_order_dict [OF assms(1), of a s oid tr] r by simp
  then obtain code where code: "dict_get r ''code'' JNull = Some code"
    using is_dict_get by fastforce
  have step: "cancel_each e a s (order # orders) c f tr =
      (if code = JStr ''00000'' then cancel_each e a s orders (c + 1) f ?tr
       else cancel_each e a s orders c (f + 1) ?tr)"
    by (simp add: oid r code)
  have IH: "\<And>c f. cancel_each e a s orders c f ?tr =
     (Some (c + length (filter ?Q [0..<?n]), f + length (filter (\<lambda>i. \<not> ?Q i) [0..<?n])),
      ?tr @ map (cancel_call a s) orders)"
    using Cons by simp
  have z: "?P 0 = (code = JStr ''00000'')"
    by (simp add: cancel_succeeded_0 oid r code)
  have sh: "(\<lambda>i. ?P (Suc i)) = ?Q" "(\<lambda>i. \<not> ?P (Suc i)) = (\<lambda>i. \<not> ?Q i)"
    by (simp_all add: cancel_succeeded_Suc)
  have c1: "length (filter ?P [0..<Suc ?n]) = (if code = JStr ''00000'' then 1 else 0) + length (filter ?Q [0..<?n])"
    using count_upt_Suc [of ?P ?n] by (simp only: sh z)
  have c2: "length (filter (\<lambda>i. \<not> ?P i) [0..<Suc ?n]) =
            (if code = JStr ''00000'' then 0 else 1) + length (filter (\<lambda>i. \<not> ?Q i) [0..<?n])"
    using count_upt_Suc [of "\<lambda>i. \<not> ?P i" ?n] by (simp only: sh z) simp
  have len: "length (order # orders) = Suc ?n" by simp
  show ?case
    unfolding step IH len c1 c2 by simp
qed


lemma count_positive:
  "0 < length (filter P [0..<n]) \<longleftrightarrow> (\<exists>i<n. P i)"
  "filter P [0..<n] \<noteq> [] \<longleftrightarrow> (\<exists>i<n. P i)"
  by (auto simp: filter_empty_conv)

lemma listing_call: "snd (get_open_orders e a s tr) = tr @ [(a, Spot_get_open_orders s)]"
  by simp



lemma demo_open_orders:
  "a \<noteq> ''carol'' \<Longrightarrow> get_open_orders demo_env a ''BTCUSDT_SPBL'' tr =
     (JObj [(''code'', JStr ''00000''), (''data'', demo_orders a)],
      tr @ [(a, Spot_get_open_orders ''BTCUSDT_SPBL'')])"
  by (simp add: get_open_orders_def api_def demo_env_def demo_exchange_def)

lemma demo_cancel_replies: "cancel_replies_are_dicts demo_env"
  by (auto simp: cancel_replies_are_dicts_def demo_env_def demo_exchange_def split: if_splits)

lemma demo_cfg_simps [simp]:
  "cfg_symbol demo_cfg = ''BTCUSDT_SPBL''" "cfg_coin demo_cfg = ''BTC''"
  by (simp_all add: demo_cfg_def)

lemma demo_cancel:
  "a \<noteq> ''carol'' \<Longrightarrow> cancel_order demo_env a s i tr =
     (if a = ''bob'' \<or> i = JStr ''1''
      then JObj [(''code'', JStr ''43001''), (''msg'', JStr ''refused'')]
      else JObj [(''code'', JStr ''00000'')],
      tr @ [(a, Spot_cance_order s i)])"
  by (simp add: cancel_order_def api_def demo_env_def demo_exchange_def)







end
